theory Spec2Isabelle
  imports Complex_Main "HOL-Library.AList" "HOL-Library.Char_ord" "HOL-Library.List_Lexorder"
begin

section \<open>Python values\<close>

text \<open>
  The dataclasses of \<^verbatim>\<open>config.py\<close> carry type annotations, but Python does not
  enforce them: \<^verbatim>\<open>from_dict\<close> stores whatever the dictionary holds. A field is
  therefore a dynamic value. The values are those a JSON or YAML document can hold.

  A float is \<open>NaN\<close>, an infinity, or a finite double, which is the real number it
  denotes. \<^verbatim>\<open>config.py\<close> does no float arithmetic, only comparisons, and IEEE
  comparison of finite doubles is comparison of the reals they denote.
\<close>

datatype pyfloat = Fin real | PosInf | NegInf | NaN

datatype pyval =
    PNone
  | PBool bool
  | PInt int
  | PFloat pyfloat
  | PStr string
  | PList "pyval list"
  | PDict "(string \<times> pyval) list"

text \<open>
  A dict is an association list in insertion order, looked up with \<open>map_of\<close> and
  assigned with \<open>AList.update\<close> (an existing key keeps its place, a new key goes
  last, as in Python). Keys are strings.
\<close>

text \<open>
  The exceptions the code can raise. \<open>OSError\<close> stands for the operating system's
  refusals other than a missing file (a directory where a file is expected and the
  reverse). \<open>Unmodelled\<close> is not a Python exception: it marks the one operation whose
  Python result the model does not compute, the ordering of two strings or of two
  lists by \<^verbatim>\<open>>\<close>. Lemma \<open>validate_body_modelled\<close> shows that the validator never
  reaches it.
\<close>

datatype exc =
    KeyError pyval
  | TypeError
  | ValueError string
  | FileNotFoundError
  | AttributeError
  | OSError
  | Unmodelled

subsection \<open>Comparisons\<close>

fun fl_le :: "pyfloat \<Rightarrow> pyfloat \<Rightarrow> bool" where
  "fl_le NaN _ = False"
| "fl_le _ NaN = False"
| "fl_le NegInf _ = True"
| "fl_le _ PosInf = True"
| "fl_le (Fin a) (Fin b) = (a \<le> b)"
| "fl_le PosInf _ = False"
| "fl_le (Fin a) NegInf = False"

fun fl_lt :: "pyfloat \<Rightarrow> pyfloat \<Rightarrow> bool" where
  "fl_lt NaN _ = False"
| "fl_lt _ NaN = False"
| "fl_lt PosInf _ = False"
| "fl_lt _ NegInf = False"
| "fl_lt (Fin a) (Fin b) = (a < b)"
| "fl_lt NegInf _ = True"
| "fl_lt (Fin a) PosInf = True"

text \<open>
  The numeric reading of a value: \<^verbatim>\<open>bool\<close> is a subclass of \<^verbatim>\<open>int\<close>, and Python
  compares an int with a float by their exact mathematical values.
\<close>

fun as_num :: "pyval \<Rightarrow> pyfloat option" where
  "as_num (PBool b) = Some (Fin (if b then 1 else 0))"
| "as_num (PInt i) = Some (Fin (of_int i))"
| "as_num (PFloat f) = Some f"
| "as_num _ = None"

text \<open>\<^verbatim>\<open>v <= i\<close> and \<^verbatim>\<open>i <= v\<close> for an int literal \<open>i\<close>: every value that is not
  a number raises \<^verbatim>\<open>TypeError\<close>.\<close>

definition py_le_int :: "pyval \<Rightarrow> int \<Rightarrow> exc + bool" where
  "py_le_int v i =
     (case as_num v of None \<Rightarrow> Inl TypeError | Some x \<Rightarrow> Inr (fl_le x (Fin (of_int i))))"

definition py_int_le :: "int \<Rightarrow> pyval \<Rightarrow> exc + bool" where
  "py_int_le i v =
     (case as_num v of None \<Rightarrow> Inl TypeError | Some x \<Rightarrow> Inr (fl_le (Fin (of_int i)) x))"

text \<open>\<^verbatim>\<open>a > b\<close>.\<close>

fun py_gt :: "pyval \<Rightarrow> pyval \<Rightarrow> exc + bool" where
  "py_gt (PStr a) (PStr b) = Inl Unmodelled"
| "py_gt (PList a) (PList b) = Inl Unmodelled"
| "py_gt a b =
     (case as_num a of
        None \<Rightarrow> Inl TypeError
      | Some x \<Rightarrow> (case as_num b of None \<Rightarrow> Inl TypeError | Some y \<Rightarrow> Inr (fl_lt y x)))"

text \<open>\<^verbatim>\<open>x or y\<close> on comparison results: \<open>y\<close> is evaluated only when \<open>x\<close> is false.\<close>

fun py_or :: "exc + bool \<Rightarrow> exc + bool \<Rightarrow> exc + bool" where
  "py_or (Inl e) _ = Inl e"
| "py_or (Inr True) _ = Inr True"
| "py_or (Inr False) y = y"

text \<open>\<^verbatim>\<open>not lo <= v <= hi\<close>: the chain stops at the first false comparison.\<close>

definition py_not_between :: "int \<Rightarrow> pyval \<Rightarrow> int \<Rightarrow> exc + bool" where
  "py_not_between lo v hi =
     (case py_int_le lo v of
        Inl e \<Rightarrow> Inl e
      | Inr False \<Rightarrow> Inr True
      | Inr True \<Rightarrow> (case py_le_int v hi of Inl e \<Rightarrow> Inl e | Inr b \<Rightarrow> Inr (\<not> b)))"

text \<open>\<^verbatim>\<open>any(...)\<close> over a generator: stops at the first true element, raises at the
  first element that raises.\<close>

fun py_any :: "(exc + bool) list \<Rightarrow> exc + bool" where
  "py_any [] = Inr False"
| "py_any (Inl e # _) = Inl e"
| "py_any (Inr True # _) = Inr True"
| "py_any (Inr False # rest) = py_any rest"

text \<open>Truth value of a value (\<^verbatim>\<open>not v\<close> is its negation).\<close>

fun py_truthy :: "pyval \<Rightarrow> bool" where
  "py_truthy PNone = False"
| "py_truthy (PBool b) = b"
| "py_truthy (PInt i) = (i \<noteq> 0)"
| "py_truthy (PFloat (Fin r)) = (r \<noteq> 0)"
| "py_truthy (PFloat _) = True"
| "py_truthy (PStr s) = (s \<noteq> [])"
| "py_truthy (PList xs) = (xs \<noteq> [])"
| "py_truthy (PDict d) = (d \<noteq> [])"

text \<open>
  Iteration \<^verbatim>\<open>for x in v\<close>: a list yields its elements, a string its characters
  (strings of length one), a dict its keys; anything else is not iterable.
\<close>

fun py_iter :: "pyval \<Rightarrow> exc + pyval list" where
  "py_iter (PList xs) = Inr xs"
| "py_iter (PStr s) = Inr (map (\<lambda>c. PStr [c]) s)"
| "py_iter (PDict d) = Inr (map (\<lambda>kv. PStr (fst kv)) d)"
| "py_iter _ = Inl TypeError"

text \<open>\<^verbatim>\<open>any(x <= 0 for x in v)\<close>.\<close>

definition any_le_zero :: "pyval \<Rightarrow> exc + bool" where
  "any_le_zero v =
     (case py_iter v of Inl e \<Rightarrow> Inl e | Inr xs \<Rightarrow> py_any (map (\<lambda>x. py_le_int x 0) xs))"

section \<open>The configuration schema\<close>

text \<open>
  \<^verbatim>\<open>WorkloadType\<close> is imported from \<^verbatim>\<open>..environment\<close>, which is not among the
  sources. A member is represented by its name; the set of member names is a
  parameter \<open>reg\<close> of the functions that look a name up.
\<close>

datatype workload_type = WorkloadType (member_name: string)

type_synonym registry = "string list"

record network_config =
  topology_type :: pyval
  num_devices :: pyval
  min_bandwidth :: pyval
  max_bandwidth :: pyval
  edge_probability :: pyval
  network_seed :: pyval

record resource_config =
  memory_mu :: pyval
  memory_sigma :: pyval
  memory_min :: pyval
  memory_max :: pyval
  compute_mu :: pyval
  compute_sigma :: pyval
  compute_min :: pyval
  compute_max :: pyval
  resource_seed :: pyval

record workload_config =
  model_type :: workload_type
  initial_sequence_lengths :: pyval
  generation_steps :: pyval
  precision_bytes :: pyval
  workload_seed :: pyval

record algorithm_config =
  migration_threshold :: pyval
  backtrack_limit :: pyval
  cache_placement_strategy :: pyval
  enable_dynamic_adjustment :: pyval

record experiment_config =
  name :: pyval
  description :: pyval
  num_runs :: pyval
  checkpoint_interval :: pyval
  time_limit :: pyval
  metrics_output_dir :: pyval
  save_intermediate :: pyval

record simulation_config =
  network :: network_config
  resources :: resource_config
  workload :: workload_config
  algorithm :: algorithm_config
  "experiment" :: experiment_config

section \<open>The validator\<close>

text \<open>
  \<^verbatim>\<open>validate_config\<close> is a chain of \<^verbatim>\<open>if cond: return False\<close> statements ending in
  \<^verbatim>\<open>return True\<close>, inside \<^verbatim>\<open>try ... except Exception: return False\<close>.
  \<open>validate_conditions\<close> lists the conditions in the order of the source;
  \<open>run_checks\<close> walks them as the chain does.
\<close>

definition validate_conditions :: "simulation_config \<Rightarrow> (exc + bool) list" where
  "validate_conditions config =
   [ py_le_int (num_devices (network config)) 0,
     py_or (py_le_int (min_bandwidth (network config)) 0)
           (py_le_int (max_bandwidth (network config)) 0),
     py_gt (min_bandwidth (network config)) (max_bandwidth (network config)),
     py_not_between 0 (edge_probability (network config)) 1,
     py_any (map (\<lambda>x. py_le_int x 0)
       [memory_min (resources config), memory_max (resources config),
        compute_min (resources config), compute_max (resources config)]),
     py_gt (memory_min (resources config)) (memory_max (resources config)),
     py_gt (compute_min (resources config)) (compute_max (resources config)),
     Inr (\<not> py_truthy (initial_sequence_lengths (workload config))),
     Inr (\<not> py_truthy (generation_steps (workload config))),
     any_le_zero (initial_sequence_lengths (workload config)),
     any_le_zero (generation_steps (workload config)),
     py_le_int (precision_bytes (workload config)) 0,
     py_not_between 0 (migration_threshold (algorithm config)) 1,
     py_le_int (backtrack_limit (algorithm config)) 0,
     py_le_int (num_runs (experiment config)) 0,
     py_le_int (checkpoint_interval (experiment config)) 0,
     py_le_int (time_limit (experiment config)) 0 ]"

fun run_checks :: "(exc + bool) list \<Rightarrow> exc + bool" where
  "run_checks [] = Inr True"
| "run_checks (Inl e # _) = Inl e"
| "run_checks (Inr True # _) = Inr False"
| "run_checks (Inr False # rest) = run_checks rest"

text \<open>The body of the \<^verbatim>\<open>try\<close> block.\<close>

definition validate_body :: "simulation_config \<Rightarrow> exc + bool" where
  "validate_body config = run_checks (validate_conditions config)"

text \<open>The whole function: \<^verbatim>\<open>except Exception: return False\<close>.\<close>

definition validate_config :: "simulation_config \<Rightarrow> exc + bool" where
  "validate_config config =
     (case validate_body config of Inl e \<Rightarrow> Inr False | Inr b \<Rightarrow> Inr b)"

section \<open>The codec\<close>

definition and_then :: "exc + 'a \<Rightarrow> ('a \<Rightarrow> exc + 'b) \<Rightarrow> exc + 'b" where
  "and_then m f = (case m of Inl e \<Rightarrow> Inl e | Inr a \<Rightarrow> f a)"

text \<open>\<^verbatim>\<open>v[k]\<close> for a string key: only a dict accepts it.\<close>

fun py_getitem :: "pyval \<Rightarrow> string \<Rightarrow> exc + pyval" where
  "py_getitem (PDict d) k = (case map_of d k of None \<Rightarrow> Inl (KeyError (PStr k)) | Some v \<Rightarrow> Inr v)"
| "py_getitem _ k = Inl TypeError"

text \<open>\<^verbatim>\<open>v.items()\<close>.\<close>

fun py_items :: "pyval \<Rightarrow> exc + (string \<times> pyval) list" where
  "py_items (PDict d) = Inr d"
| "py_items _ = Inl AttributeError"

text \<open>\<^verbatim>\<open>f(**v)\<close>: the argument after \<^verbatim>\<open>**\<close> must be a mapping.\<close>

fun star_star :: "pyval \<Rightarrow> exc + (string \<times> pyval) list" where
  "star_star (PDict d) = Inr d"
| "star_star _ = Inl TypeError"

text \<open>\<^verbatim>\<open>WorkloadType[v]\<close>: a lookup in the dict of members. An unhashable key is a
  \<^verbatim>\<open>TypeError\<close>, any other key that is not a member's name a \<^verbatim>\<open>KeyError\<close>.\<close>

fun WorkloadType_getitem :: "registry \<Rightarrow> pyval \<Rightarrow> exc + workload_type" where
  "WorkloadType_getitem reg (PStr n) =
     (if n \<in> set reg then Inr (WorkloadType n) else Inl (KeyError (PStr n)))"
| "WorkloadType_getitem reg (PList xs) = Inl TypeError"
| "WorkloadType_getitem reg (PDict d) = Inl TypeError"
| "WorkloadType_getitem reg v = Inl (KeyError v)"

text \<open>
  The generated \<^verbatim>\<open>__init__\<close> of a dataclass, called with keyword arguments only:
  a keyword that is not a field is a \<^verbatim>\<open>TypeError\<close>, a field without a default that
  is not given is a \<^verbatim>\<open>TypeError\<close>, a field with a default that is not given takes
  the default. No field's type is checked.
\<close>

definition require :: "(string \<times> pyval) list \<Rightarrow> string \<Rightarrow> (pyval \<Rightarrow> exc + 'a) \<Rightarrow> exc + 'a" where
  "require kw k f = (case map_of kw k of None \<Rightarrow> Inl TypeError | Some v \<Rightarrow> f v)"

definition optional :: "(string \<times> pyval) list \<Rightarrow> string \<Rightarrow> pyval \<Rightarrow> pyval" where
  "optional kw k d = (case map_of kw k of None \<Rightarrow> d | Some v \<Rightarrow> v)"

definition unexpected :: "string list \<Rightarrow> (string \<times> pyval) list \<Rightarrow> bool" where
  "unexpected params kw = list_ex (\<lambda>k. k \<notin> set params) (map fst kw)"

text \<open>The doubles written \<^verbatim>\<open>0.3\<close> and \<^verbatim>\<open>0.9\<close>.\<close>

definition float_0_3 :: real where
  "float_0_3 = 5404319552844595 / 18014398509481984"

definition float_0_9 :: real where
  "float_0_9 = 8106479329266893 / 9007199254740992"

definition NetworkConfig :: "(string \<times> pyval) list \<Rightarrow> exc + network_config" where
  "NetworkConfig kw =
     (if unexpected [''topology_type'', ''num_devices'', ''min_bandwidth'', ''max_bandwidth'',
                     ''edge_probability'', ''seed''] kw
      then Inl TypeError
      else
        require kw ''topology_type'' (\<lambda>v1.
        require kw ''num_devices'' (\<lambda>v2.
        require kw ''min_bandwidth'' (\<lambda>v3.
        require kw ''max_bandwidth'' (\<lambda>v4.
        Inr \<lparr> topology_type = v1, num_devices = v2, min_bandwidth = v3, max_bandwidth = v4,
              edge_probability = optional kw ''edge_probability'' (PFloat (Fin float_0_3)),
              network_seed = optional kw ''seed'' PNone \<rparr>)))))"

definition ResourceConfig :: "(string \<times> pyval) list \<Rightarrow> exc + resource_config" where
  "ResourceConfig kw =
     (if unexpected [''memory_mu'', ''memory_sigma'', ''memory_min'', ''memory_max'',
                     ''compute_mu'', ''compute_sigma'', ''compute_min'', ''compute_max'',
                     ''seed''] kw
      then Inl TypeError
      else
        require kw ''memory_mu'' (\<lambda>v1.
        require kw ''memory_sigma'' (\<lambda>v2.
        require kw ''memory_min'' (\<lambda>v3.
        require kw ''memory_max'' (\<lambda>v4.
        require kw ''compute_mu'' (\<lambda>v5.
        require kw ''compute_sigma'' (\<lambda>v6.
        require kw ''compute_min'' (\<lambda>v7.
        require kw ''compute_max'' (\<lambda>v8.
        Inr \<lparr> memory_mu = v1, memory_sigma = v2, memory_min = v3, memory_max = v4,
              compute_mu = v5, compute_sigma = v6, compute_min = v7, compute_max = v8,
              resource_seed = optional kw ''seed'' PNone \<rparr>)))))))))"

text \<open>\<^verbatim>\<open>WorkloadConfig(model_type=mt, **kw)\<close>, where \<open>kw\<close> has no key
  \<^verbatim>\<open>model_type\<close>.\<close>

definition WorkloadConfig :: "workload_type \<Rightarrow> (string \<times> pyval) list \<Rightarrow> exc + workload_config" where
  "WorkloadConfig mt kw =
     (if unexpected [''model_type'', ''initial_sequence_lengths'', ''generation_steps'',
                     ''precision_bytes'', ''seed''] kw
      then Inl TypeError
      else
        require kw ''initial_sequence_lengths'' (\<lambda>v1.
        require kw ''generation_steps'' (\<lambda>v2.
        Inr \<lparr> model_type = mt, initial_sequence_lengths = v1, generation_steps = v2,
              precision_bytes = optional kw ''precision_bytes'' (PInt 4),
              workload_seed = optional kw ''seed'' PNone \<rparr>)))"

definition AlgorithmConfig :: "(string \<times> pyval) list \<Rightarrow> exc + algorithm_config" where
  "AlgorithmConfig kw =
     (if unexpected [''migration_threshold'', ''backtrack_limit'', ''cache_placement_strategy'',
                     ''enable_dynamic_adjustment''] kw
      then Inl TypeError
      else
        Inr \<lparr> migration_threshold = optional kw ''migration_threshold'' (PFloat (Fin float_0_9)),
              backtrack_limit = optional kw ''backtrack_limit'' (PInt 100),
              cache_placement_strategy = optional kw ''cache_placement_strategy'' (PStr ''colocated''),
              enable_dynamic_adjustment = optional kw ''enable_dynamic_adjustment'' (PBool True) \<rparr>)"

definition ExperimentConfig :: "(string \<times> pyval) list \<Rightarrow> exc + experiment_config" where
  "ExperimentConfig kw =
     (if unexpected [''name'', ''description'', ''num_runs'', ''checkpoint_interval'',
                     ''time_limit'', ''metrics_output_dir'', ''save_intermediate''] kw
      then Inl TypeError
      else
        require kw ''name'' (\<lambda>v1.
        require kw ''description'' (\<lambda>v2.
        Inr \<lparr> name = v1, description = v2,
              num_runs = optional kw ''num_runs'' (PInt 1),
              checkpoint_interval = optional kw ''checkpoint_interval'' (PInt 10),
              time_limit = optional kw ''time_limit'' (PFloat PosInf),
              metrics_output_dir = optional kw ''metrics_output_dir'' (PStr ''results''),
              save_intermediate = optional kw ''save_intermediate'' (PBool False) \<rparr>)))"

text \<open>\<^verbatim>\<open>SimulationConfig.from_dict\<close>: the five arguments are evaluated in the order
  written, so the first section that fails decides the exception.\<close>

definition from_dict :: "registry \<Rightarrow> pyval \<Rightarrow> exc + simulation_config" where
  "from_dict reg config_dict =
     and_then (and_then (and_then (py_getitem config_dict ''network'') star_star) NetworkConfig) (\<lambda>n.
     and_then (and_then (and_then (py_getitem config_dict ''resources'') star_star) ResourceConfig) (\<lambda>r.
     and_then (py_getitem config_dict ''workload'') (\<lambda>wd.
     and_then (py_getitem wd ''model_type'') (\<lambda>mn.
     and_then (WorkloadType_getitem reg mn) (\<lambda>mt.
     and_then (py_items wd) (\<lambda>its.
     and_then (WorkloadConfig mt (filter (\<lambda>kv. fst kv \<noteq> ''model_type'') its)) (\<lambda>w.
     and_then (and_then (and_then (py_getitem config_dict ''algorithm'') star_star) AlgorithmConfig) (\<lambda>a.
     and_then (and_then (and_then (py_getitem config_dict ''experiment'') star_star) ExperimentConfig) (\<lambda>e.
     Inr \<lparr> network = n, resources = r, workload = w, algorithm = a, experiment = e \<rparr>)))))))))"

text \<open>\<^verbatim>\<open>SimulationConfig.to_dict\<close>: the dict, as its items in the order written.\<close>

definition to_dict :: "simulation_config \<Rightarrow> (string \<times> pyval) list" where
  "to_dict c =
   [ (''network'', PDict
       [ (''topology_type'', topology_type (network c)),
         (''num_devices'', num_devices (network c)),
         (''min_bandwidth'', min_bandwidth (network c)),
         (''max_bandwidth'', max_bandwidth (network c)),
         (''edge_probability'', edge_probability (network c)),
         (''seed'', network_seed (network c)) ]),
     (''resources'', PDict
       [ (''memory_mu'', memory_mu (resources c)),
         (''memory_sigma'', memory_sigma (resources c)),
         (''memory_min'', memory_min (resources c)),
         (''memory_max'', memory_max (resources c)),
         (''compute_mu'', compute_mu (resources c)),
         (''compute_sigma'', compute_sigma (resources c)),
         (''compute_min'', compute_min (resources c)),
         (''compute_max'', compute_max (resources c)),
         (''seed'', resource_seed (resources c)) ]),
     (''workload'', PDict
       [ (''model_type'', PStr (member_name (model_type (workload c)))),
         (''initial_sequence_lengths'', initial_sequence_lengths (workload c)),
         (''generation_steps'', generation_steps (workload c)),
         (''precision_bytes'', precision_bytes (workload c)),
         (''seed'', workload_seed (workload c)) ]),
     (''algorithm'', PDict
       [ (''migration_threshold'', migration_threshold (algorithm c)),
         (''backtrack_limit'', backtrack_limit (algorithm c)),
         (''cache_placement_strategy'', cache_placement_strategy (algorithm c)),
         (''enable_dynamic_adjustment'', enable_dynamic_adjustment (algorithm c)) ]),
     (''experiment'', PDict
       [ (''name'', name (experiment c)),
         (''description'', description (experiment c)),
         (''num_runs'', num_runs (experiment c)),
         (''checkpoint_interval'', checkpoint_interval (experiment c)),
         (''time_limit'', time_limit (experiment c)),
         (''metrics_output_dir'', metrics_output_dir (experiment c)),
         (''save_intermediate'', save_intermediate (experiment c)) ]) ]"

section \<open>The default configuration\<close>

definition create_default_config :: simulation_config where
  "create_default_config =
   \<lparr> network =
       \<lparr> topology_type = PStr ''edge_cluster'', num_devices = PInt 8,
         min_bandwidth = PFloat (Fin 1), max_bandwidth = PFloat (Fin 10),
         edge_probability = PFloat (Fin float_0_3), network_seed = PNone \<rparr>,
     resources =
       \<lparr> memory_mu = PFloat (Fin 2), memory_sigma = PFloat (Fin (1/2)),
         memory_min = PFloat (Fin 1), memory_max = PFloat (Fin 16),
         compute_mu = PFloat (Fin 5), compute_sigma = PFloat (Fin (1/2)),
         compute_min = PFloat (Fin 1), compute_max = PFloat (Fin 32),
         resource_seed = PNone \<rparr>,
     workload =
       \<lparr> model_type = WorkloadType ''SMALL'',
         initial_sequence_lengths = PList [PInt 128, PInt 256, PInt 512],
         generation_steps = PList [PInt 32, PInt 64, PInt 128],
         precision_bytes = PInt 4, workload_seed = PNone \<rparr>,
     algorithm =
       \<lparr> migration_threshold = PFloat (Fin float_0_9), backtrack_limit = PInt 100,
         cache_placement_strategy = PStr ''colocated'',
         enable_dynamic_adjustment = PBool True \<rparr>,
     experiment =
       \<lparr> name = PStr ''default_experiment'',
         description = PStr ''Default experiment configuration'',
         num_runs = PInt 1, checkpoint_interval = PInt 10, time_limit = PFloat PosInf,
         metrics_output_dir = PStr ''results'', save_intermediate = PBool False \<rparr> \<rparr>"

section \<open>The merge\<close>

text \<open>
  \<^verbatim>\<open>update_dict(d1, d2)\<close>: for each item of \<open>d2\<close> in order, recurse when the key is in
  \<open>d1\<close> and both values are dicts, assign the override's value otherwise.
\<close>

fun update_dict :: "(string \<times> pyval) list \<Rightarrow> (string \<times> pyval) list \<Rightarrow> (string \<times> pyval) list" where
  "update_dict d1 [] = d1"
| "update_dict d1 ((k, PDict b) # rest) =
     update_dict
       (case map_of d1 k of
          Some (PDict a) \<Rightarrow> AList.update k (PDict (update_dict a b)) d1
        | _ \<Rightarrow> AList.update k (PDict b) d1)
       rest"
| "update_dict d1 ((k, v) # rest) = update_dict (AList.update k v d1) rest"

definition merge_configs :: "registry \<Rightarrow> simulation_config \<Rightarrow> (string \<times> pyval) list \<Rightarrow> exc + simulation_config" where
  "merge_configs reg base_config override_config =
     from_dict reg (PDict (update_dict (to_dict base_config) override_config))"

section \<open>Files\<close>

text \<open>
  A path is the list of its components, as \<^verbatim>\<open>pathlib.Path(config_path)\<close> holds
  it; the empty list is the current directory. \<open>suffix\<close> is \<^verbatim>\<open>Path.suffix\<close> on the
  final component: with \<open>i\<close> the index of the last dot, the suffix is the name from
  \<open>i\<close> on when \<open>0 < i < len(name) - 1\<close> and empty otherwise.
\<close>

type_synonym path = "string list"

definition suffix :: "string \<Rightarrow> string" where
  "suffix nm =
     (let ext = rev (takeWhile (\<lambda>c. c \<noteq> CHR ''.'') (rev nm))
      in if CHR ''.'' \<in> set nm \<and> ext \<noteq> [] \<and> length ext + 1 < length nm
         then CHR ''.'' # ext else [])"

definition path_suffix :: "path \<Rightarrow> string" where
  "path_suffix p = (if p = [] then [] else suffix (last p))"

text \<open>The directories above a path, outermost first: what
  \<^verbatim>\<open>config_path.parent.mkdir(parents=True, exist_ok=True)\<close> makes sure of.\<close>

definition ancestors :: "path \<Rightarrow> path list" where
  "ancestors p = map (\<lambda>n. take n p) [1..<length p]"

text \<open>
  The file system: the regular files with their contents, and the directories.
  \<^verbatim>\<open>yaml\<close> and \<^verbatim>\<open>json\<close> are libraries outside the repository; their four
  functions, and the content of a file just opened for writing, are parameters.
\<close>

record 'text filesystem =
  files :: "path \<rightharpoonup> 'text"
  dirs :: "path set"

record 'text serializers =
  yaml_safe_dump :: "pyval \<Rightarrow> 'text"
  yaml_safe_load :: "'text \<Rightarrow> exc + pyval"
  json_dump :: "pyval \<Rightarrow> 'text"
  json_load :: "'text \<Rightarrow> exc + pyval"
  empty_text :: "'text"

definition is_file :: "'text filesystem \<Rightarrow> path \<Rightarrow> bool" where
  "is_file fs p = (files fs p \<noteq> None)"

definition is_dir :: "'text filesystem \<Rightarrow> path \<Rightarrow> bool" where
  "is_dir fs p = (p = [] \<or> p \<in> dirs fs)"

definition path_exists :: "'text filesystem \<Rightarrow> path \<Rightarrow> bool" where
  "path_exists fs p = (is_file fs p \<or> is_dir fs p)"

text \<open>\<^verbatim>\<open>open(config_path, 'r')\<close>, giving the content to be read.\<close>

definition open_read :: "'text filesystem \<Rightarrow> path \<Rightarrow> exc + 'text" where
  "open_read fs p =
     (if is_dir fs p then Inl OSError
      else case files fs p of None \<Rightarrow> Inl FileNotFoundError | Some t \<Rightarrow> Inr t)"

definition unsupported :: exc where
  "unsupported = ValueError ''Configuration file must be .yaml or .json''"

definition load_config ::
  "'text serializers \<Rightarrow> registry \<Rightarrow> 'text filesystem \<Rightarrow> path
     \<Rightarrow> (exc + simulation_config) \<times> 'text filesystem" where
  "load_config S reg fs config_path =
     (if \<not> path_exists fs config_path then (Inl FileNotFoundError, fs)
      else case open_read fs config_path of
        Inl e \<Rightarrow> (Inl e, fs)
      | Inr f \<Rightarrow>
          if path_suffix config_path = ''.yaml''
          then (and_then (yaml_safe_load S f) (from_dict reg), fs)
          else if path_suffix config_path = ''.json''
          then (and_then (json_load S f) (from_dict reg), fs)
          else (Inl unsupported, fs))"

text \<open>
  \<^verbatim>\<open>save_config\<close>: \<^verbatim>\<open>mkdir\<close> fails when a regular file stands where a directory is
  needed, \<^verbatim>\<open>open(config_path, 'w')\<close> fails on a directory and otherwise creates or
  truncates the file; only then is the suffix looked at.
\<close>

definition save_config ::
  "'text serializers \<Rightarrow> 'text filesystem \<Rightarrow> simulation_config \<Rightarrow> path
     \<Rightarrow> (exc + unit) \<times> 'text filesystem" where
  "save_config S fs config config_path =
     (let config_dict = PDict (to_dict config) in
      if list_ex (is_file fs) (ancestors config_path) then (Inl OSError, fs)
      else
        let fs1 = fs\<lparr>dirs := dirs fs \<union> set (ancestors config_path)\<rparr> in
        if is_dir fs1 config_path then (Inl OSError, fs1)
        else
          let fs2 = fs1\<lparr>files := (files fs1)(config_path \<mapsto> empty_text S)\<rparr> in
          if path_suffix config_path = ''.yaml''
          then (Inr (), fs2\<lparr>files := (files fs2)(config_path \<mapsto> yaml_safe_dump S config_dict)\<rparr>)
          else if path_suffix config_path = ''.json''
          then (Inr (), fs2\<lparr>files := (files fs2)(config_path \<mapsto> json_dump S config_dict)\<rparr>)
          else (Inl unsupported, fs2))"

section \<open>The invariants of a valid configuration\<close>

text \<open>
  The invariants as the specification words them, to be compared with what
  \<open>validate_config\<close> computes: every range pair has \<open>min \<le> max\<close>, every declared
  positive quantity is \<open>> 0\<close>, every probability or threshold lies in \<open>[0, 1]\<close>, and
  both workload sequences are non-empty lists of positive values. A value that is
  not a number satisfies none of the numeric invariants.
\<close>

definition positive :: "pyval \<Rightarrow> bool" where
  "positive v = (case as_num v of None \<Rightarrow> False | Some x \<Rightarrow> fl_lt (Fin 0) x)"

definition in_unit_interval :: "pyval \<Rightarrow> bool" where
  "in_unit_interval v =
     (case as_num v of None \<Rightarrow> False | Some x \<Rightarrow> fl_le (Fin 0) x \<and> fl_le x (Fin 1))"

definition range_ok :: "pyval \<Rightarrow> pyval \<Rightarrow> bool" where
  "range_ok lo hi =
     (case as_num lo of None \<Rightarrow> False
      | Some x \<Rightarrow> (case as_num hi of None \<Rightarrow> False | Some y \<Rightarrow> fl_le x y))"

fun positive_sequence :: "pyval \<Rightarrow> bool" where
  "positive_sequence (PList xs) = (xs \<noteq> [] \<and> list_all positive xs)"
| "positive_sequence _ = False"

definition spec_invariants :: "simulation_config \<Rightarrow> bool" where
  "spec_invariants c =
     (range_ok (min_bandwidth (network c)) (max_bandwidth (network c)) \<and>
      range_ok (memory_min (resources c)) (memory_max (resources c)) \<and>
      range_ok (compute_min (resources c)) (compute_max (resources c)) \<and>
      positive (num_devices (network c)) \<and>
      positive (min_bandwidth (network c)) \<and>
      positive (max_bandwidth (network c)) \<and>
      positive (memory_min (resources c)) \<and>
      positive (compute_min (resources c)) \<and>
      positive (precision_bytes (workload c)) \<and>
      positive (backtrack_limit (algorithm c)) \<and>
      positive (num_runs (experiment c)) \<and>
      positive (checkpoint_interval (experiment c)) \<and>
      positive (time_limit (experiment c)) \<and>
      in_unit_interval (edge_probability (network c)) \<and>
      in_unit_interval (migration_threshold (algorithm c)) \<and>
      positive_sequence (initial_sequence_lengths (workload c)) \<and>
      positive_sequence (generation_steps (workload c)))"

text \<open>A configuration none of whose validated numbers is \<open>NaN\<close>.\<close>

definition not_nan :: "pyval \<Rightarrow> bool" where
  "not_nan v = (v \<noteq> PFloat NaN)"

fun elements_not_nan :: "pyval \<Rightarrow> bool" where
  "elements_not_nan (PList xs) = list_all not_nan xs"
| "elements_not_nan _ = True"

definition nan_free :: "simulation_config \<Rightarrow> bool" where
  "nan_free c =
     (not_nan (num_devices (network c)) \<and>
      not_nan (min_bandwidth (network c)) \<and>
      not_nan (max_bandwidth (network c)) \<and>
      not_nan (memory_min (resources c)) \<and>
      not_nan (memory_max (resources c)) \<and>
      not_nan (compute_min (resources c)) \<and>
      not_nan (compute_max (resources c)) \<and>
      elements_not_nan (initial_sequence_lengths (workload c)) \<and>
      elements_not_nan (generation_steps (workload c)) \<and>
      not_nan (precision_bytes (workload c)) \<and>
      not_nan (backtrack_limit (algorithm c)) \<and>
      not_nan (num_runs (experiment c)) \<and>
      not_nan (checkpoint_interval (experiment c)) \<and>
      not_nan (time_limit (experiment c)))"

text \<open>
  What the conditions of \<open>validate_config\<close> let through, field by field: a
  comparison \<^verbatim>\<open>x <= 0\<close> that is false, a comparison \<^verbatim>\<open>lo > hi\<close> that is false, a
  non-empty list with every \<^verbatim>\<open>x <= 0\<close> false.
\<close>

definition passes_le_zero :: "pyval \<Rightarrow> bool" where
  "passes_le_zero v = (case as_num v of None \<Rightarrow> False | Some x \<Rightarrow> \<not> fl_le x (Fin 0))"

definition passes_gt :: "pyval \<Rightarrow> pyval \<Rightarrow> bool" where
  "passes_gt a b = (case as_num a of None \<Rightarrow> False
      | Some x \<Rightarrow> (case as_num b of None \<Rightarrow> False | Some y \<Rightarrow> \<not> fl_lt y x))"

fun passes_sequence :: "pyval \<Rightarrow> bool" where
  "passes_sequence (PList xs) = (xs \<noteq> [] \<and> list_all passes_le_zero xs)"
| "passes_sequence _ = False"

definition accepted :: "simulation_config \<Rightarrow> bool" where
  "accepted c =
     (passes_le_zero (num_devices (network c)) \<and>
      passes_le_zero (min_bandwidth (network c)) \<and>
      passes_le_zero (max_bandwidth (network c)) \<and>
      passes_gt (min_bandwidth (network c)) (max_bandwidth (network c)) \<and>
      in_unit_interval (edge_probability (network c)) \<and>
      passes_le_zero (memory_min (resources c)) \<and>
      passes_le_zero (memory_max (resources c)) \<and>
      passes_le_zero (compute_min (resources c)) \<and>
      passes_le_zero (compute_max (resources c)) \<and>
      passes_gt (memory_min (resources c)) (memory_max (resources c)) \<and>
      passes_gt (compute_min (resources c)) (compute_max (resources c)) \<and>
      passes_sequence (initial_sequence_lengths (workload c)) \<and>
      passes_sequence (generation_steps (workload c)) \<and>
      passes_le_zero (precision_bytes (workload c)) \<and>
      in_unit_interval (migration_threshold (algorithm c)) \<and>
      passes_le_zero (backtrack_limit (algorithm c)) \<and>
      passes_le_zero (num_runs (experiment c)) \<and>
      passes_le_zero (checkpoint_interval (experiment c)) \<and>
      passes_le_zero (time_limit (experiment c)))"

section \<open>The shape of a decodable tree\<close>

text \<open>
  A section has the right shape when it is a mapping that gives every field without
  a default and no key that is not a field. \<open>structurally_complete\<close> asks it of the
  five sections, and that the workload's \<open>model_type\<close> names a registered member. No
  field's value is looked at.
\<close>

definition section_shape :: "string list \<Rightarrow> string list \<Rightarrow> pyval \<Rightarrow> string \<Rightarrow> bool" where
  "section_shape required params t s =
     (case py_getitem t s of
        Inr (PDict kw) \<Rightarrow>
          list_all (\<lambda>k. map_of kw k \<noteq> None) required \<and>
          list_all (\<lambda>k. k \<in> set params) (map fst kw)
      | _ \<Rightarrow> False)"

definition registered :: "registry \<Rightarrow> pyval \<Rightarrow> bool" where
  "registered reg t =
     (case py_getitem t ''workload'' of
        Inr (PDict kw) \<Rightarrow> (case map_of kw ''model_type'' of Some (PStr n) \<Rightarrow> n \<in> set reg | _ \<Rightarrow> False)
      | _ \<Rightarrow> False)"

definition network_shape :: "pyval \<Rightarrow> bool" where
  "network_shape t = section_shape
     [''topology_type'', ''num_devices'', ''min_bandwidth'', ''max_bandwidth'']
     [''topology_type'', ''num_devices'', ''min_bandwidth'', ''max_bandwidth'',
      ''edge_probability'', ''seed''] t ''network''"

definition resources_shape :: "pyval \<Rightarrow> bool" where
  "resources_shape t = section_shape
     [''memory_mu'', ''memory_sigma'', ''memory_min'', ''memory_max'',
      ''compute_mu'', ''compute_sigma'', ''compute_min'', ''compute_max'']
     [''memory_mu'', ''memory_sigma'', ''memory_min'', ''memory_max'',
      ''compute_mu'', ''compute_sigma'', ''compute_min'', ''compute_max'', ''seed''] t ''resources''"

definition workload_shape :: "pyval \<Rightarrow> bool" where
  "workload_shape t = section_shape
     [''model_type'', ''initial_sequence_lengths'', ''generation_steps'']
     [''model_type'', ''initial_sequence_lengths'', ''generation_steps'',
      ''precision_bytes'', ''seed''] t ''workload''"

definition algorithm_shape :: "pyval \<Rightarrow> bool" where
  "algorithm_shape t = section_shape []
     [''migration_threshold'', ''backtrack_limit'', ''cache_placement_strategy'',
      ''enable_dynamic_adjustment''] t ''algorithm''"

definition experiment_shape :: "pyval \<Rightarrow> bool" where
  "experiment_shape t = section_shape [''name'', ''description'']
     [''name'', ''description'', ''num_runs'', ''checkpoint_interval'',
      ''time_limit'', ''metrics_output_dir'', ''save_intermediate''] t ''experiment''"

definition structurally_complete :: "registry \<Rightarrow> pyval \<Rightarrow> bool" where
  "structurally_complete reg t =
     (network_shape t \<and> resources_shape t \<and> workload_shape t \<and> registered reg t \<and>
      algorithm_shape t \<and> experiment_shape t)"

fun structural_error :: "exc \<Rightarrow> bool" where
  "structural_error (KeyError k) = True"
| "structural_error TypeError = True"
| "structural_error _ = False"

text \<open>
  The fields of the five dataclasses by section: \<open>required_of\<close> those without a
  default, which a sub-mapping has to give, and \<open>fields_of\<close> all of them.
\<close>

definition section_names :: "string list" where
  "section_names = [''network'', ''resources'', ''workload'', ''algorithm'', ''experiment'']"

definition required_of :: "string \<Rightarrow> string list" where
  "required_of s =
     (if s = ''network''
      then [''topology_type'', ''num_devices'', ''min_bandwidth'', ''max_bandwidth'']
      else if s = ''resources''
      then [''memory_mu'', ''memory_sigma'', ''memory_min'', ''memory_max'',
            ''compute_mu'', ''compute_sigma'', ''compute_min'', ''compute_max'']
      else if s = ''workload''
      then [''model_type'', ''initial_sequence_lengths'', ''generation_steps'']
      else if s = ''experiment''
      then [''name'', ''description'']
      else [])"

definition fields_of :: "string \<Rightarrow> string list" where
  "fields_of s =
     (if s = ''network''
      then [''topology_type'', ''num_devices'', ''min_bandwidth'', ''max_bandwidth'',
            ''edge_probability'', ''seed'']
      else if s = ''resources''
      then [''memory_mu'', ''memory_sigma'', ''memory_min'', ''memory_max'',
            ''compute_mu'', ''compute_sigma'', ''compute_min'', ''compute_max'', ''seed'']
      else if s = ''workload''
      then [''model_type'', ''initial_sequence_lengths'', ''generation_steps'',
            ''precision_bytes'', ''seed'']
      else if s = ''algorithm''
      then [''migration_threshold'', ''backtrack_limit'', ''cache_placement_strategy'',
            ''enable_dynamic_adjustment'']
      else if s = ''experiment''
      then [''name'', ''description'', ''num_runs'', ''checkpoint_interval'',
            ''time_limit'', ''metrics_output_dir'', ''save_intermediate'']
      else [])"

section \<open>Instances\<close>

text \<open>
  An instance of the two libraries, to apply the theorems to: the text of a file is
  the list of the documents dumped into it, and loading gives the single document
  back. An empty YAML file loads as \<^verbatim>\<open>None\<close>; an empty JSON file does not parse.
\<close>

definition document_serializers :: "pyval list serializers" where
  "document_serializers =
     \<lparr> yaml_safe_dump = (\<lambda>t. [t]),
       yaml_safe_load = (\<lambda>ds. case ds of [] \<Rightarrow> Inr PNone | [t] \<Rightarrow> Inr t
                                 | _ \<Rightarrow> Inl (ValueError ''expected a single document'')),
       json_dump = (\<lambda>t. [t]),
       json_load = (\<lambda>ds. case ds of [t] \<Rightarrow> Inr t | _ \<Rightarrow> Inl (ValueError ''Expecting value'')),
       empty_text = [] \<rparr>"

definition empty_fs :: "'text filesystem" where
  "empty_fs = \<lparr> files = Map.empty, dirs = {} \<rparr>"

section \<open>What a merge is to produce\<close>

text \<open>
  The specification's rule for a merge, leaf by leaf: a leaf that the override
  supplies replaces the base's value, every other leaf keeps it. \<open>section_items\<close>
  are the leaves an override supplies for a section, \<open>override_leaf\<close> the value of one
  field after the merge, \<open>apply_overrides\<close> the configuration that results.

  \<open>wf_override\<close> says when an override is a partial tree of the schema: its keys are
  distinct, what it gives for a section is a mapping with distinct keys that are
  fields of the section and values that are not mappings themselves, and a workload
  model it gives is the name of a registry member. \<open>merge_value\<close> is what
  \<^verbatim>\<open>update_dict\<close> stores for one key.
\<close>

fun is_dict :: "pyval \<Rightarrow> bool" where
  "is_dict (PDict d) = True"
| "is_dict _ = False"

fun merge_value :: "pyval option \<Rightarrow> pyval \<Rightarrow> pyval" where
  "merge_value (Some (PDict a)) (PDict b) = PDict (update_dict a b)"
| "merge_value _ v = v"

definition section_items :: "(string \<times> pyval) list \<Rightarrow> string \<Rightarrow> (string \<times> pyval) list" where
  "section_items ov s = (case map_of ov s of Some (PDict fs) \<Rightarrow> fs | _ \<Rightarrow> [])"

definition override_leaf :: "(string \<times> pyval) list \<Rightarrow> string \<Rightarrow> string \<Rightarrow> pyval \<Rightarrow> pyval" where
  "override_leaf ov s f old = (case map_of (section_items ov s) f of Some v \<Rightarrow> v | None \<Rightarrow> old)"

definition flat_section :: "string list \<Rightarrow> (string \<times> pyval) list \<Rightarrow> string \<Rightarrow> bool" where
  "flat_section params ov s =
     ((case map_of ov s of None \<Rightarrow> True | Some v \<Rightarrow> is_dict v) \<and>
      distinct (map fst (section_items ov s)) \<and>
      list_all (\<lambda>k. k \<in> set params) (map fst (section_items ov s)) \<and>
      list_all (\<lambda>kv. \<not> is_dict (snd kv)) (section_items ov s))"

definition model_override_ok :: "registry \<Rightarrow> (string \<times> pyval) list \<Rightarrow> bool" where
  "model_override_ok reg ov =
     (case map_of (section_items ov ''workload'') ''model_type'' of
        None \<Rightarrow> True
      | Some (PStr n) \<Rightarrow> n \<in> set reg
      | Some _ \<Rightarrow> False)"

definition wf_override :: "registry \<Rightarrow> (string \<times> pyval) list \<Rightarrow> bool" where
  "wf_override reg ov =
     (distinct (map fst ov) \<and>
      flat_section [''topology_type'', ''num_devices'', ''min_bandwidth'', ''max_bandwidth'',
                    ''edge_probability'', ''seed''] ov ''network'' \<and>
      flat_section [''memory_mu'', ''memory_sigma'', ''memory_min'', ''memory_max'',
                    ''compute_mu'', ''compute_sigma'', ''compute_min'', ''compute_max'',
                    ''seed''] ov ''resources'' \<and>
      flat_section [''model_type'', ''initial_sequence_lengths'', ''generation_steps'',
                    ''precision_bytes'', ''seed''] ov ''workload'' \<and>
      flat_section [''migration_threshold'', ''backtrack_limit'', ''cache_placement_strategy'',
                    ''enable_dynamic_adjustment''] ov ''algorithm'' \<and>
      flat_section [''name'', ''description'', ''num_runs'', ''checkpoint_interval'',
                    ''time_limit'', ''metrics_output_dir'', ''save_intermediate''] ov ''experiment'' \<and>
      model_override_ok reg ov)"

definition apply_overrides :: "simulation_config \<Rightarrow> (string \<times> pyval) list \<Rightarrow> simulation_config" where
  "apply_overrides c ov =
   \<lparr> network =
       \<lparr> topology_type = override_leaf ov ''network'' ''topology_type'' (topology_type (network c)),
         num_devices = override_leaf ov ''network'' ''num_devices'' (num_devices (network c)),
         min_bandwidth = override_leaf ov ''network'' ''min_bandwidth'' (min_bandwidth (network c)),
         max_bandwidth = override_leaf ov ''network'' ''max_bandwidth'' (max_bandwidth (network c)),
         edge_probability = override_leaf ov ''network'' ''edge_probability'' (edge_probability (network c)),
         network_seed = override_leaf ov ''network'' ''seed'' (network_seed (network c)) \<rparr>,
     resources =
       \<lparr> memory_mu = override_leaf ov ''resources'' ''memory_mu'' (memory_mu (resources c)),
         memory_sigma = override_leaf ov ''resources'' ''memory_sigma'' (memory_sigma (resources c)),
         memory_min = override_leaf ov ''resources'' ''memory_min'' (memory_min (resources c)),
         memory_max = override_leaf ov ''resources'' ''memory_max'' (memory_max (resources c)),
         compute_mu = override_leaf ov ''resources'' ''compute_mu'' (compute_mu (resources c)),
         compute_sigma = override_leaf ov ''resources'' ''compute_sigma'' (compute_sigma (resources c)),
         compute_min = override_leaf ov ''resources'' ''compute_min'' (compute_min (resources c)),
         compute_max = override_leaf ov ''resources'' ''compute_max'' (compute_max (resources c)),
         resource_seed = override_leaf ov ''resources'' ''seed'' (resource_seed (resources c)) \<rparr>,
     workload =
       \<lparr> model_type =
           (case override_leaf ov ''workload'' ''model_type''
                   (PStr (member_name (model_type (workload c)))) of
              PStr n \<Rightarrow> WorkloadType n
            | _ \<Rightarrow> model_type (workload c)),
         initial_sequence_lengths =
           override_leaf ov ''workload'' ''initial_sequence_lengths'' (initial_sequence_lengths (workload c)),
         generation_steps = override_leaf ov ''workload'' ''generation_steps'' (generation_steps (workload c)),
         precision_bytes = override_leaf ov ''workload'' ''precision_bytes'' (precision_bytes (workload c)),
         workload_seed = override_leaf ov ''workload'' ''seed'' (workload_seed (workload c)) \<rparr>,
     algorithm =
       \<lparr> migration_threshold =
           override_leaf ov ''algorithm'' ''migration_threshold'' (migration_threshold (algorithm c)),
         backtrack_limit = override_leaf ov ''algorithm'' ''backtrack_limit'' (backtrack_limit (algorithm c)),
         cache_placement_strategy =
           override_leaf ov ''algorithm'' ''cache_placement_strategy'' (cache_placement_strategy (algorithm c)),
         enable_dynamic_adjustment =
           override_leaf ov ''algorithm'' ''enable_dynamic_adjustment'' (enable_dynamic_adjustment (algorithm c)) \<rparr>,
     experiment =
       \<lparr> name = override_leaf ov ''experiment'' ''name'' (name (experiment c)),
         description = override_leaf ov ''experiment'' ''description'' (description (experiment c)),
         num_runs = override_leaf ov ''experiment'' ''num_runs'' (num_runs (experiment c)),
         checkpoint_interval =
           override_leaf ov ''experiment'' ''checkpoint_interval'' (checkpoint_interval (experiment c)),
         time_limit = override_leaf ov ''experiment'' ''time_limit'' (time_limit (experiment c)),
         metrics_output_dir =
           override_leaf ov ''experiment'' ''metrics_output_dir'' (metrics_output_dir (experiment c)),
         save_intermediate =
           override_leaf ov ''experiment'' ''save_intermediate'' (save_intermediate (experiment c)) \<rparr> \<rparr>"

section \<open>Equality of configurations\<close>

text \<open>
  Python's \<^verbatim>\<open>==\<close> on two values that share no object: numbers compare by value
  across \<^verbatim>\<open>bool\<close>, \<^verbatim>\<open>int\<close> and \<^verbatim>\<open>float\<close>, and \<open>NaN\<close> equals nothing, itself
  included; strings and \<^verbatim>\<open>None\<close> compare by value, lists element by element. Two
  dicts are equal when each holds every key of the other with an equal value (Python
  compares the lengths and looks every key of the one up in the other, which on
  dicts, whose keys are distinct, is the same). The \<^verbatim>\<open>__eq__\<close> that
  \<^verbatim>\<open>@dataclass\<close> generates compares two instances field by field.

  What is loaded from a file shares no object with the configuration that was
  saved, so the shortcut by which Python takes an object to equal itself, a \<open>NaN\<close>
  too, does not apply to it.
\<close>

fun fl_eq :: "pyfloat \<Rightarrow> pyfloat \<Rightarrow> bool" where
  "fl_eq NaN _ = False"
| "fl_eq _ NaN = False"
| "fl_eq a b = (a = b)"

function (sequential) py_eq :: "pyval \<Rightarrow> pyval \<Rightarrow> bool"
  and py_eq_list :: "pyval list \<Rightarrow> pyval list \<Rightarrow> bool"
  and py_eq_items :: "(string \<times> pyval) list \<Rightarrow> (string \<times> pyval) list \<Rightarrow> bool"
  and py_eq_entry :: "string \<Rightarrow> pyval \<Rightarrow> (string \<times> pyval) list \<Rightarrow> bool"
where
  "py_eq (PList xs) (PList ys) = py_eq_list xs ys"
| "py_eq (PDict d1) (PDict d2) = (py_eq_items d1 d2 \<and> py_eq_items d2 d1)"
| "py_eq (PStr a) (PStr b) = (a = b)"
| "py_eq PNone PNone = True"
| "py_eq a b =
     (case as_num a of None \<Rightarrow> False
      | Some x \<Rightarrow> (case as_num b of None \<Rightarrow> False | Some y \<Rightarrow> fl_eq x y))"
| "py_eq_list [] [] = True"
| "py_eq_list (x # xs) (y # ys) = (py_eq x y \<and> py_eq_list xs ys)"
| "py_eq_list _ _ = False"
| "py_eq_items [] d2 = True"
| "py_eq_items ((k, a) # rest) d2 = (py_eq_entry k a d2 \<and> py_eq_items rest d2)"
| "py_eq_entry k a [] = False"
| "py_eq_entry k a ((k', b) # rest) = (if k = k' then py_eq a b else py_eq_entry k a rest)"
  by pat_completeness auto
termination
  by (relation "measure (case_sum
        (case_sum (\<lambda>(a, b). size a + size b)
                  (\<lambda>(xs, ys). size_list size xs + size_list size ys))
        (case_sum (\<lambda>(d1, d2). size_list (size_prod (\<lambda>x. 0) size) d1 +
                                size_list (size_prod (\<lambda>x. 0) size) d2)
                  (\<lambda>(k, a, d). size a + size_list (size_prod (\<lambda>x. 0) size) d)))")
     auto









section \<open>A library that sorts keys\<close>



section \<open>Properties of the validator\<close>

lemma run_checks_all:
  "(case run_checks cs of Inl e \<Rightarrow> Inr False | Inr b \<Rightarrow> Inr b) = Inr (list_all (\<lambda>x. x = Inr False) cs)"
  by (induction cs rule: run_checks.induct) simp_all

lemma validate_config_all:
  "validate_config c = Inr (list_all (\<lambda>x. x = Inr False) (validate_conditions c))"
  by (simp add: validate_config_def validate_body_def run_checks_all)

lemma py_le_int_passes: "(py_le_int v 0 = Inr False) = passes_le_zero v"
  by (simp add: py_le_int_def passes_le_zero_def split: option.splits)

lemma py_or_False: "(py_or a b = Inr False) = (a = Inr False \<and> b = Inr False)"
  by (induction a b rule: py_or.induct) simp_all

lemma py_any_False: "(py_any xs = Inr False) = list_all (\<lambda>x. x = Inr False) xs"
  by (induction xs rule: py_any.induct) simp_all

lemma py_gt_passes: "(py_gt a b = Inr False) = passes_gt a b"
  by (induction a b rule: py_gt.induct) (simp_all add: passes_gt_def split: option.splits)

lemma py_not_between_unit: "(py_not_between 0 v 1 = Inr False) = in_unit_interval v"
  by (auto simp add: py_not_between_def py_int_le_def py_le_int_def in_unit_interval_def split: option.splits bool.splits sum.splits)

lemma fl_not_le_zero: "f \<noteq> NaN \<Longrightarrow> (\<not> fl_le f (Fin 0)) = fl_lt (Fin 0) f"
  by (cases f) auto

lemma fl_lt_not_le: "fl_lt (Fin 0) f \<Longrightarrow> \<not> fl_le f (Fin 0)"
  by (cases f) auto

lemma passes_positive: "not_nan v \<Longrightarrow> passes_le_zero v = positive v"
  by (cases v) (auto simp add: passes_le_zero_def positive_def not_nan_def fl_not_le_zero)

lemma positive_passes: "positive v \<Longrightarrow> passes_le_zero v"
  by (cases v) (auto simp add: passes_le_zero_def positive_def fl_lt_not_le)

lemma py_any_map_False: "(py_any (map f xs) = Inr False) = list_all (\<lambda>x. f x = Inr False) xs"
  by (simp add: py_any_False list_all_iff)

lemma seq_passes: "(py_truthy v \<and> any_le_zero v = Inr False) = passes_sequence v"
proof (cases v)
  case (PStr s)
  then show ?thesis by (cases s) (simp_all add: any_le_zero_def py_le_int_def)
next
  case (PDict d)
  then show ?thesis by (cases d) (simp_all add: any_le_zero_def py_le_int_def)
next
  case (PList xs)
  then show ?thesis by (simp add: any_le_zero_def py_any_map_False py_le_int_passes)
next
  case (PFloat f)
  then show ?thesis by (simp add: any_le_zero_def)
qed (simp_all add: any_le_zero_def)

lemma validate_config_accepted: "validate_config c = Inr (accepted c)"
  unfolding validate_config_all validate_conditions_def accepted_def
  by (simp add: py_le_int_passes py_or_False py_any_False py_gt_passes py_not_between_unit
        seq_passes[symmetric] conj_ac)


lemma fl_le_not_lt: "fl_le x y \<Longrightarrow> \<not> fl_lt y x"
  by (cases x; cases y) auto

lemma fl_not_lt_le: "x \<noteq> NaN \<Longrightarrow> y \<noteq> NaN \<Longrightarrow> \<not> fl_lt y x \<Longrightarrow> fl_le x y"
  by (cases x; cases y) auto

lemma fl_lt_le_trans: "fl_lt x y \<Longrightarrow> fl_le y z \<Longrightarrow> fl_lt x z"
  by (cases x; cases y; cases z) auto

lemma range_ok_passes: "range_ok a b \<Longrightarrow> passes_gt a b"
  by (auto simp: range_ok_def passes_gt_def fl_le_not_lt split: option.splits)

lemma passes_range_ok: "not_nan a \<Longrightarrow> not_nan b \<Longrightarrow> passes_gt a b \<Longrightarrow> range_ok a b"
  by (cases a; cases b) (auto simp: range_ok_def passes_gt_def not_nan_def fl_not_lt_le split: option.splits)

lemma positive_range_ok: "positive a \<Longrightarrow> range_ok a b \<Longrightarrow> positive b"
  by (auto simp: range_ok_def positive_def split: option.splits intro: fl_lt_le_trans)

lemma positive_sequence_passes: "positive_sequence v \<Longrightarrow> passes_sequence v"
  by (cases v) (auto simp: list_all_iff positive_passes)

lemma passes_positive_sequence: "elements_not_nan v \<Longrightarrow> passes_sequence v \<Longrightarrow> positive_sequence v"
  by (cases v) (auto simp: list_all_iff passes_positive)

lemma spec_invariants_accepted: "spec_invariants c \<Longrightarrow> accepted c"
  unfolding spec_invariants_def accepted_def
  by (auto intro: positive_passes range_ok_passes positive_sequence_passes dest: positive_range_ok)

lemma accepted_spec_invariants: "nan_free c \<Longrightarrow> accepted c \<Longrightarrow> spec_invariants c"
  unfolding spec_invariants_def accepted_def nan_free_def
  by (auto simp: passes_positive intro: passes_range_ok passes_positive_sequence)

lemma validate_config_invariants: "nan_free c \<Longrightarrow> validate_config c = Inr (spec_invariants c)"
  using spec_invariants_accepted accepted_spec_invariants by (auto simp: validate_config_accepted)


lemma run_checks_Cons_Inl:
  "(run_checks (x # xs) = Inl e) = (x = Inl e \<or> x = Inr False \<and> run_checks xs = Inl e)"
  by (cases "(x # xs)" rule: run_checks.cases) auto

lemma py_le_int_modelled: "py_le_int v i \<noteq> Inl Unmodelled"
  by (simp add: py_le_int_def split: option.splits)

lemma py_not_between_modelled: "py_not_between lo v hi \<noteq> Inl Unmodelled"
  by (simp add: py_not_between_def py_int_le_def py_le_int_def split: option.splits sum.splits bool.splits)

lemma py_or_Inl: "(py_or a b = Inl e) = (a = Inl e \<or> a = Inr False \<and> b = Inl e)"
  by (induction a b rule: py_or.induct) auto

lemma py_any_Cons_Inl:
  "(py_any (x # xs) = Inl e) = (x = Inl e \<or> x = Inr False \<and> py_any xs = Inl e)"
  by (cases "(x # xs)" rule: py_any.cases) auto

lemma py_any_modelled: "list_all (\<lambda>x. x \<noteq> Inl Unmodelled) xs \<Longrightarrow> py_any xs \<noteq> Inl Unmodelled"
  by (induction xs rule: py_any.induct) simp_all

lemma any_le_zero_modelled: "any_le_zero v \<noteq> Inl Unmodelled"
  by (cases v) (auto simp: any_le_zero_def list_all_iff py_le_int_modelled intro!: py_any_modelled)

lemma py_gt_Unmodelled: "py_gt a b = Inl Unmodelled \<Longrightarrow> py_le_int a 0 = Inl TypeError"
  by (induction a b rule: py_gt.induct) (auto simp: py_le_int_def split: option.splits)

lemma validate_body_modelled: "validate_body c \<noteq> Inl Unmodelled"
  unfolding validate_body_def validate_conditions_def
  by (auto simp: run_checks_Cons_Inl py_le_int_modelled py_not_between_modelled py_or_Inl
        py_or_False py_any_False py_any_Cons_Inl any_le_zero_modelled dest: py_gt_Unmodelled)

lemma run_checks_first_failure:
  "run_checks cs =
     (case dropWhile (\<lambda>x. x = Inr False) cs of
        [] \<Rightarrow> Inr True
      | Inl e # _ \<Rightarrow> Inl e
      | Inr b # _ \<Rightarrow> Inr False)"
  by (induction cs rule: run_checks.induct) simp_all

lemma validate_conditions_unchecked:
  "validate_conditions
     (c\<lparr> network := (network c)\<lparr> topology_type := tt \<rparr>,
         resources := (resources c)\<lparr> memory_mu := mm, memory_sigma := ms,
                                       compute_mu := cm, compute_sigma := cs \<rparr>,
         algorithm := (algorithm c)\<lparr> cache_placement_strategy := cp \<rparr>,
         experiment := (experiment c)\<lparr> name := nm, description := ds,
                                         metrics_output_dir := md \<rparr> \<rparr>)
   = validate_conditions c"
  by (simp add: validate_conditions_def)

lemma update_dict_other:
  "k \<notin> fst ` set d2 \<Longrightarrow> map_of (update_dict d1 d2) k = map_of d1 k"
  by (induction d1 d2 rule: update_dict.induct)
     (auto simp: update_conv' split: option.splits pyval.splits)

section \<open>Properties of the codec and of the file operations\<close>

lemmas codec_defs = from_dict_def to_dict_def and_then_def NetworkConfig_def ResourceConfig_def
  WorkloadConfig_def AlgorithmConfig_def ExperimentConfig_def require_def optional_def unexpected_def

lemma from_dict_to_dict:
  "member_name (model_type (workload c)) \<in> set reg \<Longrightarrow> from_dict reg (PDict (to_dict c)) = Inr c"
  by (simp add: codec_defs)

lemma length_ancestor: "q \<in> set (ancestors p) \<Longrightarrow> length q < length p"
  by (auto simp: ancestors_def)

lemma not_in_ancestors: "p \<notin> set (ancestors p)"
  using length_ancestor[of p p] by auto

lemma is_dir_after_mkdir:
  "is_dir (fs\<lparr>dirs := dirs fs \<union> set (ancestors p)\<rparr>) p = is_dir fs p"
  by (simp add: is_dir_def not_in_ancestors)

lemma save_config_ok:
  assumes "\<not> list_ex (is_file fs) (ancestors p)" "\<not> is_dir fs p"
  shows "save_config S fs c p =
     (if path_suffix p = ''.yaml''
      then (Inr (), fs\<lparr>dirs := dirs fs \<union> set (ancestors p),
                        files := (files fs)(p \<mapsto> yaml_safe_dump S (PDict (to_dict c)))\<rparr>)
      else if path_suffix p = ''.json''
      then (Inr (), fs\<lparr>dirs := dirs fs \<union> set (ancestors p),
                        files := (files fs)(p \<mapsto> json_dump S (PDict (to_dict c)))\<rparr>)
      else (Inl unsupported, fs\<lparr>dirs := dirs fs \<union> set (ancestors p),
                        files := (files fs)(p \<mapsto> empty_text S)\<rparr>))"
  using assms by (simp add: save_config_def Let_def is_dir_after_mkdir)

lemma save_config_Inr:
  "fst (save_config S fs c p) = Inr () \<Longrightarrow>
     \<not> list_ex (is_file fs) (ancestors p) \<and> \<not> is_dir fs p \<and>
     (path_suffix p = ''.yaml'' \<or> path_suffix p = ''.json'')"
  by (auto simp add: save_config_def Let_def is_dir_after_mkdir unsupported_def split: if_splits)

lemma load_config_file:
  assumes "files fs p = Some f" "\<not> is_dir fs p"
  shows "load_config S reg fs p =
     (if path_suffix p = ''.yaml'' then (and_then (yaml_safe_load S f) (from_dict reg), fs)
      else if path_suffix p = ''.json'' then (and_then (json_load S f) (from_dict reg), fs)
      else (Inl unsupported, fs))"
  using assms by (simp add: load_config_def path_exists_def is_file_def open_read_def)

lemma load_config_unchanged: "snd (load_config S reg fs p) = fs"
  by (simp add: load_config_def open_read_def split: option.splits sum.splits)

lemma load_config_missing: "\<not> path_exists fs p \<Longrightarrow> load_config S reg fs p = (Inl FileNotFoundError, fs)"
  by (simp add: load_config_def)

lemma suffix_txt: "suffix (stem @ ''.txt'') = (if stem = [] then [] else ''.txt'')"
  by (simp add: suffix_def)

lemma path_suffix_txt:
  assumes "p \<noteq> []" "last p = stem @ ''.txt''"
  shows "path_suffix p \<noteq> ''.yaml''" "path_suffix p \<noteq> ''.json''"
  using assms by (simp_all add: path_suffix_def suffix_txt)

section \<open>Properties of decoding\<close>

lemma and_then_Inr: "(\<exists>b. and_then m f = Inr b) = (\<exists>a. m = Inr a \<and> (\<exists>b. f a = Inr b))"
  by (cases m) (simp_all add: and_then_def)

lemma and_then_Inl: "(and_then m f = Inl e) = (m = Inl e \<or> (\<exists>a. m = Inr a \<and> f a = Inl e))"
  by (cases m) (simp_all add: and_then_def)

lemma and_then_assoc: "and_then (and_then m f) g = and_then m (\<lambda>x. and_then (f x) g)"
  by (cases m) (simp_all add: and_then_def)

lemma not_unexpected: "(\<not> unexpected params kw) = list_all (\<lambda>k. k \<in> set params) (map fst kw)"
  by (simp add: unexpected_def list_all_iff list_ex_iff)

lemma require_Inr: "(\<exists>c. require kw k f = Inr c) = (\<exists>v. map_of kw k = Some v \<and> (\<exists>c. f v = Inr c))"
  by (simp add: require_def split: option.splits)

lemma require_Inl: "(require kw k f = Inl e) = (map_of kw k = None \<and> e = TypeError \<or> (\<exists>v. map_of kw k = Some v \<and> f v = Inl e))"
  by (auto simp add: require_def split: option.splits)

lemma NetworkConfig_Inr:
  "(\<exists>c. NetworkConfig kw = Inr c) =
     (list_all (\<lambda>k. map_of kw k \<noteq> None) [''topology_type'', ''num_devices'', ''min_bandwidth'', ''max_bandwidth''] \<and>
      list_all (\<lambda>k. k \<in> set [''topology_type'', ''num_devices'', ''min_bandwidth'', ''max_bandwidth'',
      ''edge_probability'', ''seed'']) (map fst kw))"
  unfolding NetworkConfig_def not_unexpected[symmetric]
  by (auto simp: require_Inr)

lemma ResourceConfig_Inr:
  "(\<exists>c. ResourceConfig kw = Inr c) =
     (list_all (\<lambda>k. map_of kw k \<noteq> None) [''memory_mu'', ''memory_sigma'', ''memory_min'', ''memory_max'',
      ''compute_mu'', ''compute_sigma'', ''compute_min'', ''compute_max''] \<and>
      list_all (\<lambda>k. k \<in> set [''memory_mu'', ''memory_sigma'', ''memory_min'', ''memory_max'',
      ''compute_mu'', ''compute_sigma'', ''compute_min'', ''compute_max'', ''seed'']) (map fst kw))"
  unfolding ResourceConfig_def not_unexpected[symmetric]
  by (auto simp: require_Inr)

lemma WorkloadConfig_Inr:
  "(\<exists>c. WorkloadConfig mt kw = Inr c) =
     (list_all (\<lambda>k. map_of kw k \<noteq> None) [''initial_sequence_lengths'', ''generation_steps''] \<and>
      list_all (\<lambda>k. k \<in> set [''model_type'', ''initial_sequence_lengths'', ''generation_steps'',
      ''precision_bytes'', ''seed'']) (map fst kw))"
  unfolding WorkloadConfig_def not_unexpected[symmetric]
  by (auto simp: require_Inr)

lemma AlgorithmConfig_Inr:
  "(\<exists>c. AlgorithmConfig kw = Inr c) =
     (list_all (\<lambda>k. map_of kw k \<noteq> None) [] \<and>
      list_all (\<lambda>k. k \<in> set [''migration_threshold'', ''backtrack_limit'', ''cache_placement_strategy'',
      ''enable_dynamic_adjustment'']) (map fst kw))"
  unfolding AlgorithmConfig_def not_unexpected[symmetric]
  by (auto simp: require_Inr)

lemma ExperimentConfig_Inr:
  "(\<exists>c. ExperimentConfig kw = Inr c) =
     (list_all (\<lambda>k. map_of kw k \<noteq> None) [''name'', ''description''] \<and>
      list_all (\<lambda>k. k \<in> set [''name'', ''description'', ''num_runs'', ''checkpoint_interval'',
      ''time_limit'', ''metrics_output_dir'', ''save_intermediate'']) (map fst kw))"
  unfolding ExperimentConfig_def not_unexpected[symmetric]
  by (auto simp: require_Inr)

lemma section_decodes:
  assumes "\<And>kw. (\<exists>c. C kw = Inr c) =
     (list_all (\<lambda>k. map_of kw k \<noteq> None) required \<and> list_all (\<lambda>k. k \<in> set params) (map fst kw))"
  shows "(\<exists>a. and_then (and_then (py_getitem t s) star_star) C = Inr a) = section_shape required params t s"
proof (cases "py_getitem t s")
  case (Inl e)
  then show ?thesis by (simp add: and_then_def section_shape_def)
next
  case (Inr v)
  then show ?thesis using assms by (cases v) (simp_all add: and_then_def section_shape_def)
qed

lemma map_of_filter_key:
  "map_of (filter (\<lambda>kv. fst kv \<noteq> a) kw) k = (if k = a then None else map_of kw k)"
  by (induction kw) auto

lemma keys_filter:
  "P a \<Longrightarrow>
   list_all P (map fst (filter (\<lambda>kv. fst kv \<noteq> a) kw)) = list_all P (map fst kw)"
  by (auto simp: list_all_iff)

lemma py_getitem_Inr: "py_getitem v k = Inr x \<Longrightarrow> \<exists>d. v = PDict d \<and> map_of d k = Some x"
  by (cases v) (auto split: option.splits)

lemma workload_decodes:
  "(\<exists>w. and_then (py_getitem t ''workload'') (\<lambda>wd.
         and_then (py_getitem wd ''model_type'') (\<lambda>mn.
         and_then (WorkloadType_getitem reg mn) (\<lambda>mt.
         and_then (py_items wd) (\<lambda>its.
         WorkloadConfig mt (filter (\<lambda>kv. fst kv \<noteq> ''model_type'') its))))) = Inr w)
   = (workload_shape t \<and> registered reg t)"
proof (cases "py_getitem t ''workload''")
  case (Inl e)
  then show ?thesis by (simp add: and_then_def workload_shape_def section_shape_def registered_def)
next
  case (Inr wd)
  show ?thesis
  proof (cases "\<exists>kw mn. wd = PDict kw \<and> map_of kw ''model_type'' = Some mn")
    case False
    then have "py_getitem wd ''model_type'' = Inl TypeError \<or> py_getitem wd ''model_type'' = Inl (KeyError (PStr ''model_type''))"
      by (cases wd) (auto split: option.splits)
    moreover from False have "\<not> workload_shape t"
      using Inr by (cases wd) (auto simp: workload_shape_def section_shape_def)
    ultimately show ?thesis using Inr by (auto simp: and_then_def)
  next
    case True
    then obtain kw mn where wd: "wd = PDict kw" and mn: "map_of kw ''model_type'' = Some mn"
      by blast
    show ?thesis
    proof (cases "\<exists>n. mn = PStr n \<and> n \<in> set reg")
      case False
      then have "\<exists>e. WorkloadType_getitem reg mn = Inl e" by (cases mn) auto
      moreover from False have "\<not> registered reg t"
        using Inr wd mn by (cases mn) (auto simp: registered_def)
      ultimately show ?thesis using Inr wd mn by (auto simp: and_then_def)
    next
      case True
      then obtain n where n: "mn = PStr n" "n \<in> set reg" by blast
      then have reg: "registered reg t" using Inr wd mn by (simp add: registered_def)
      show ?thesis
        using Inr wd mn n reg
        by (simp add: and_then_def WorkloadConfig_Inr map_of_filter_key keys_filter
              workload_shape_def section_shape_def)
    qed
  qed
qed

lemma from_dict_sections:
  "from_dict reg t =
     and_then (and_then (and_then (py_getitem t ''network'') star_star) NetworkConfig) (\<lambda>n.
     and_then (and_then (and_then (py_getitem t ''resources'') star_star) ResourceConfig) (\<lambda>r.
     and_then (and_then (py_getitem t ''workload'') (\<lambda>wd.
         and_then (py_getitem wd ''model_type'') (\<lambda>mn.
         and_then (WorkloadType_getitem reg mn) (\<lambda>mt.
         and_then (py_items wd) (\<lambda>its.
         WorkloadConfig mt (filter (\<lambda>kv. fst kv \<noteq> ''model_type'') its)))))) (\<lambda>w.
     and_then (and_then (and_then (py_getitem t ''algorithm'') star_star) AlgorithmConfig) (\<lambda>a.
     and_then (and_then (and_then (py_getitem t ''experiment'') star_star) ExperimentConfig) (\<lambda>e.
     Inr \<lparr> network = n, resources = r, workload = w, algorithm = a, experiment = e \<rparr>)))))"
  by (simp add: from_dict_def and_then_assoc)

lemma from_dict_Inr: "(\<exists>c. from_dict reg t = Inr c) = structurally_complete reg t"
proof -
  define N where "N = and_then (and_then (py_getitem t ''network'') star_star) NetworkConfig"
  define R where "R = and_then (and_then (py_getitem t ''resources'') star_star) ResourceConfig"
  define W where "W = and_then (py_getitem t ''workload'') (\<lambda>wd.
         and_then (py_getitem wd ''model_type'') (\<lambda>mn.
         and_then (WorkloadType_getitem reg mn) (\<lambda>mt.
         and_then (py_items wd) (\<lambda>its.
         WorkloadConfig mt (filter (\<lambda>kv. fst kv \<noteq> ''model_type'') its)))))"
  define A where "A = and_then (and_then (py_getitem t ''algorithm'') star_star) AlgorithmConfig"
  define E where "E = and_then (and_then (py_getitem t ''experiment'') star_star) ExperimentConfig"
  have fd: "from_dict reg t =
      and_then N (\<lambda>n. and_then R (\<lambda>r. and_then W (\<lambda>w. and_then A (\<lambda>a. and_then E (\<lambda>e.
        Inr \<lparr> network = n, resources = r, workload = w, algorithm = a, experiment = e \<rparr>)))))"
    unfolding N_def R_def W_def A_def E_def by (rule from_dict_sections)
  have hN: "(\<exists>n. N = Inr n) = network_shape t"
    unfolding N_def network_shape_def by (rule section_decodes[OF NetworkConfig_Inr])
  have hR: "(\<exists>n. R = Inr n) = resources_shape t"
    unfolding R_def resources_shape_def by (rule section_decodes[OF ResourceConfig_Inr])
  have hW: "(\<exists>n. W = Inr n) = (workload_shape t \<and> registered reg t)"
    unfolding W_def by (rule workload_decodes)
  have hA: "(\<exists>n. A = Inr n) = algorithm_shape t"
    unfolding A_def algorithm_shape_def by (rule section_decodes[OF AlgorithmConfig_Inr])
  have hE: "(\<exists>n. E = Inr n) = experiment_shape t"
    unfolding E_def experiment_shape_def by (rule section_decodes[OF ExperimentConfig_Inr])
  have "(\<exists>c. from_dict reg t = Inr c) =
        ((\<exists>n. N = Inr n) \<and> (\<exists>n. R = Inr n) \<and> (\<exists>n. W = Inr n) \<and> (\<exists>n. A = Inr n) \<and> (\<exists>n. E = Inr n))"
    unfolding fd by (cases N; cases R; cases W; cases A; cases E) (simp_all add: and_then_def)
  then show ?thesis
    unfolding hN hR hW hA hE structurally_complete_def by simp
qed


lemma py_getitem_Inl: "py_getitem v k = Inl e \<Longrightarrow> structural_error e"
  by (cases v) (auto split: option.splits)

lemma star_star_Inl: "star_star v = Inl e \<Longrightarrow> structural_error e"
  by (cases v) auto

lemma py_items_getitem: "py_getitem wd k = Inr x \<Longrightarrow> py_items wd = Inl e \<Longrightarrow> False"
  by (cases wd) auto

lemma WorkloadType_getitem_Inl: "WorkloadType_getitem reg v = Inl e \<Longrightarrow> structural_error e"
  by (cases v) (auto split: if_splits)

lemma NetworkConfig_Inl: "NetworkConfig kw = Inl e \<Longrightarrow> structural_error e"
  by (auto simp: NetworkConfig_def require_Inl split: if_splits)

lemma ResourceConfig_Inl: "ResourceConfig kw = Inl e \<Longrightarrow> structural_error e"
  by (auto simp: ResourceConfig_def require_Inl split: if_splits)

lemma WorkloadConfig_Inl: "WorkloadConfig mt kw = Inl e \<Longrightarrow> structural_error e"
  by (auto simp: WorkloadConfig_def require_Inl split: if_splits)

lemma AlgorithmConfig_Inl: "AlgorithmConfig kw = Inl e \<Longrightarrow> structural_error e"
  by (auto simp: AlgorithmConfig_def split: if_splits)

lemma ExperimentConfig_Inl: "ExperimentConfig kw = Inl e \<Longrightarrow> structural_error e"
  by (auto simp: ExperimentConfig_def require_Inl split: if_splits)

lemma section_Inl:
  assumes "\<And>kw e. C kw = Inl e \<Longrightarrow> structural_error e"
    and "and_then (and_then (py_getitem t s) star_star) C = Inl e"
  shows "structural_error e"
  using assms(2) by (auto simp: and_then_Inl dest: py_getitem_Inl star_star_Inl assms(1))

lemma workload_Inl:
  assumes "and_then (py_getitem t ''workload'') (\<lambda>wd.
         and_then (py_getitem wd ''model_type'') (\<lambda>mn.
         and_then (WorkloadType_getitem reg mn) (\<lambda>mt.
         and_then (py_items wd) (\<lambda>its.
         WorkloadConfig mt (filter (\<lambda>kv. fst kv \<noteq> ''model_type'') its))))) = Inl e"
  shows "structural_error e"
  using assms
  by (auto simp: and_then_Inl
        dest: py_getitem_Inl WorkloadType_getitem_Inl WorkloadConfig_Inl py_items_getitem)

lemma from_dict_Inl:
  assumes "from_dict reg t = Inl e"
  shows "structural_error e"
proof -
  define N where "N = and_then (and_then (py_getitem t ''network'') star_star) NetworkConfig"
  define R where "R = and_then (and_then (py_getitem t ''resources'') star_star) ResourceConfig"
  define W where "W = and_then (py_getitem t ''workload'') (\<lambda>wd.
         and_then (py_getitem wd ''model_type'') (\<lambda>mn.
         and_then (WorkloadType_getitem reg mn) (\<lambda>mt.
         and_then (py_items wd) (\<lambda>its.
         WorkloadConfig mt (filter (\<lambda>kv. fst kv \<noteq> ''model_type'') its)))))"
  define A where "A = and_then (and_then (py_getitem t ''algorithm'') star_star) AlgorithmConfig"
  define E where "E = and_then (and_then (py_getitem t ''experiment'') star_star) ExperimentConfig"
  have fd: "from_dict reg t =
      and_then N (\<lambda>n. and_then R (\<lambda>r. and_then W (\<lambda>w. and_then A (\<lambda>a. and_then E (\<lambda>e.
        Inr \<lparr> network = n, resources = r, workload = w, algorithm = a, experiment = e \<rparr>)))))"
    unfolding N_def R_def W_def A_def E_def by (rule from_dict_sections)
  have hN: "N = Inl e \<Longrightarrow> structural_error e"
    unfolding N_def by (rule section_Inl[OF NetworkConfig_Inl])
  have hR: "R = Inl e \<Longrightarrow> structural_error e"
    unfolding R_def by (rule section_Inl[OF ResourceConfig_Inl])
  have hW: "W = Inl e \<Longrightarrow> structural_error e"
    unfolding W_def by (rule workload_Inl)
  have hA: "A = Inl e \<Longrightarrow> structural_error e"
    unfolding A_def by (rule section_Inl[OF AlgorithmConfig_Inl])
  have hE: "E = Inl e \<Longrightarrow> structural_error e"
    unfolding E_def by (rule section_Inl[OF ExperimentConfig_Inl])
  from assms have "N = Inl e \<or> R = Inl e \<or> W = Inl e \<or> A = Inl e \<or> E = Inl e"
    unfolding fd by (cases N; cases R; cases W; cases A; cases E) (simp_all add: and_then_def)
  with hN hR hW hA hE show ?thesis by blast
qed

lemma from_dict_unknown_member:
  assumes "network_shape t" and "resources_shape t"
    and "py_getitem t ''workload'' = Inr wd"
    and "py_getitem wd ''model_type'' = Inr (PStr n)"
    and "n \<notin> set reg"
  shows "from_dict reg t = Inl (KeyError (PStr n))"
proof -
  from assms(1) obtain a
    where "and_then (and_then (py_getitem t ''network'') star_star) NetworkConfig = Inr a"
    unfolding network_shape_def section_decodes[OF NetworkConfig_Inr, symmetric] by blast
  moreover from assms(2) obtain b
    where "and_then (and_then (py_getitem t ''resources'') star_star) ResourceConfig = Inr b"
    unfolding resources_shape_def section_decodes[OF ResourceConfig_Inr, symmetric] by blast
  ultimately show ?thesis
    unfolding from_dict_sections using assms(3-5) by (simp add: and_then_def)
qed

lemma incomplete_fails:
  assumes "\<not> structurally_complete reg t"
  shows "\<exists>e. from_dict reg t = Inl e \<and> structural_error e"
proof (cases "from_dict reg t")
  case (Inl e)
  then show ?thesis by (simp add: from_dict_Inl)
next
  case (Inr c)
  with assms from_dict_Inr[of reg t] show ?thesis by blast
qed

lemma section_shape_missing:
  "py_getitem t s = Inr (PDict kw) \<Longrightarrow> f \<in> set required \<Longrightarrow> map_of kw f = None \<Longrightarrow>
   \<not> section_shape required params t s"
  by (auto simp: section_shape_def list_all_iff)

lemma section_shape_extra:
  "py_getitem t s = Inr (PDict kw) \<Longrightarrow> k \<in> fst ` set kw \<Longrightarrow> k \<notin> set params \<Longrightarrow>
   \<not> section_shape required params t s"
  by (auto simp: section_shape_def list_all_iff)

lemma complete_sections:
  assumes "structurally_complete reg t" and "s \<in> set section_names"
  shows "section_shape (required_of s) (fields_of s) t s"
proof -
  from assms(2) have "s = ''network'' \<or> s = ''resources'' \<or> s = ''workload'' \<or>
      s = ''algorithm'' \<or> s = ''experiment''"
    by (simp add: section_names_def)
  then show ?thesis
  proof (elim disjE)
    assume "s = ''network''"
    with assms(1) show ?thesis
      by (simp add: structurally_complete_def network_shape_def required_of_def fields_of_def)
  next
    assume "s = ''resources''"
    with assms(1) show ?thesis
      by (simp add: structurally_complete_def resources_shape_def required_of_def fields_of_def)
  next
    assume "s = ''workload''"
    with assms(1) show ?thesis
      by (simp add: structurally_complete_def workload_shape_def required_of_def fields_of_def)
  next
    assume "s = ''algorithm''"
    with assms(1) show ?thesis
      by (simp add: structurally_complete_def algorithm_shape_def required_of_def fields_of_def)
  next
    assume "s = ''experiment''"
    with assms(1) show ?thesis
      by (simp add: structurally_complete_def experiment_shape_def required_of_def fields_of_def)
  qed
qed


lemma required_in_names: "f \<in> set (required_of s) \<Longrightarrow> s \<in> set section_names"
  by (simp add: required_of_def section_names_def split: if_splits)

lemma missing_required_incomplete:
  assumes g: "py_getitem t s = Inr (PDict kw)" and r: "f \<in> set (required_of s)"
    and n: "map_of kw f = None"
  shows "\<not> structurally_complete reg t"
proof
  assume "structurally_complete reg t"
  from complete_sections[OF this required_in_names[OF r]] section_shape_missing[OF g r n]
  show False by simp
qed

lemma extra_field_incomplete:
  assumes g: "py_getitem t s = Inr (PDict kw)" and sn: "s \<in> set section_names"
    and p: "map_of kw k \<noteq> None" and u: "k \<notin> set (fields_of s)"
  shows "\<not> structurally_complete reg t"
proof
  assume c: "structurally_complete reg t"
  from p have k: "k \<in> fst ` set kw" by (simp add: map_of_eq_None_iff)
  from complete_sections[OF c sn] section_shape_extra[OF g k u]
  show False by simp
qed

section \<open>Properties of the merge\<close>

lemma update_dict_step:
  "update_dict d1 ((k, v) # rest) = update_dict (AList.update k (merge_value (map_of d1 k) v) d1) rest"
  by (cases v; cases "map_of d1 k"; simp split: pyval.splits)

lemma update_dict_lookup:
  "distinct (map fst d2) \<Longrightarrow>
   map_of (update_dict d1 d2) k =
     (case map_of d2 k of None \<Rightarrow> map_of d1 k | Some v \<Rightarrow> Some (merge_value (map_of d1 k) v))"
proof (induction d2 arbitrary: d1)
  case Nil
  then show ?case by simp
next
  case (Cons kv rest)
  obtain k0 v0 where kv: "kv = (k0, v0)" by (cases kv)
  from Cons.prems kv have d: "distinct (map fst rest)" and n: "map_of rest k0 = None"
    by (auto simp: map_of_eq_None_iff)
  show ?case
    unfolding kv update_dict_step Cons.IH[OF d]
    using n by (auto simp: update_conv' split: option.splits)
qed

lemma update_dict_keys:
  "fst ` set (update_dict d1 d2) = fst ` set d1 \<union> fst ` set d2"
proof (induction d2 arbitrary: d1)
  case Nil
  then show ?case by simp
next
  case (Cons kv rest)
  obtain k0 v0 where kv: "kv = (k0, v0)" by (cases kv)
  show ?case unfolding kv update_dict_step Cons.IH by (auto simp: dom_update)
qed

lemma merge_value_leaf: "\<not> is_dict v \<Longrightarrow> merge_value old v = v"
  by (cases v) simp_all

lemma flat_lookup:
  assumes "distinct (map fst fs)" and "list_all (\<lambda>kv. \<not> is_dict (snd kv)) fs"
  shows "map_of (update_dict B fs) f = (case map_of fs f of None \<Rightarrow> map_of B f | Some v \<Rightarrow> Some v)"
proof (cases "map_of fs f")
  case None
  then show ?thesis by (simp add: update_dict_lookup[OF assms(1)])
next
  case (Some v)
  then have "(f, v) \<in> set fs" by (rule map_of_SomeD)
  with assms(2) have "\<not> is_dict v" by (auto simp: list_all_iff)
  with Some show ?thesis by (simp add: update_dict_lookup[OF assms(1)] merge_value_leaf)
qed

lemma flat_expected:
  assumes "list_all (\<lambda>k. k \<in> set params) (map fst fs)" and "fst ` set B \<subseteq> set params"
  shows "\<not> unexpected params (update_dict B fs)"
proof -
  from assms(1) have "fst ` set fs \<subseteq> set params"
    by (auto simp: list_all_iff)
  with assms(2) have "fst ` set (update_dict B fs) \<subseteq> set params"
    unfolding update_dict_keys by blast
  then show ?thesis
    unfolding unexpected_def list_ex_iff by auto
qed


lemma flat_lookup_Some:
  assumes "distinct (map fst fs)" and "list_all (\<lambda>kv. \<not> is_dict (snd kv)) fs"
    and "map_of B f = Some b"
  shows "map_of (update_dict B fs) f = Some (case map_of fs f of Some v \<Rightarrow> v | None \<Rightarrow> b)"
  using assms(3) by (simp add: flat_lookup[OF assms(1,2)] split: option.splits)

lemma not_unexpected_filter:
  "\<not> unexpected params kw \<Longrightarrow> \<not> unexpected params (filter P kw)"
  by (auto simp: unexpected_def list_ex_iff)

lemma NetworkConfig_merge:
  assumes "distinct (map fst fs)"
    and "list_all (\<lambda>k. k \<in> set [''topology_type'', ''num_devices'', ''min_bandwidth'',
            ''max_bandwidth'', ''edge_probability'', ''seed'']) (map fst fs)"
    and "list_all (\<lambda>kv. \<not> is_dict (snd kv)) fs"
  shows "NetworkConfig (update_dict
      [(''topology_type'', a1), (''num_devices'', a2), (''min_bandwidth'', a3),
       (''max_bandwidth'', a4), (''edge_probability'', a5), (''seed'', a6)] fs) =
    Inr \<lparr> topology_type = (case map_of fs ''topology_type'' of Some v \<Rightarrow> v | None \<Rightarrow> a1),
          num_devices = (case map_of fs ''num_devices'' of Some v \<Rightarrow> v | None \<Rightarrow> a2),
          min_bandwidth = (case map_of fs ''min_bandwidth'' of Some v \<Rightarrow> v | None \<Rightarrow> a3),
          max_bandwidth = (case map_of fs ''max_bandwidth'' of Some v \<Rightarrow> v | None \<Rightarrow> a4),
          edge_probability = (case map_of fs ''edge_probability'' of Some v \<Rightarrow> v | None \<Rightarrow> a5),
          network_seed = (case map_of fs ''seed'' of Some v \<Rightarrow> v | None \<Rightarrow> a6) \<rparr>"
proof -
  have ne: "\<not> unexpected [''topology_type'', ''num_devices'', ''min_bandwidth'',
            ''max_bandwidth'', ''edge_probability'', ''seed''] (update_dict
      [(''topology_type'', a1), (''num_devices'', a2), (''min_bandwidth'', a3),
       (''max_bandwidth'', a4), (''edge_probability'', a5), (''seed'', a6)] fs)"
    by (rule flat_expected[OF assms(2)]) simp
  show ?thesis
    unfolding NetworkConfig_def
    by (simp add: ne require_def optional_def flat_lookup_Some[OF assms(1,3)])
qed

lemma ResourceConfig_merge:
  assumes "distinct (map fst fs)"
    and "list_all (\<lambda>k. k \<in> set [''memory_mu'', ''memory_sigma'', ''memory_min'', ''memory_max'',
            ''compute_mu'', ''compute_sigma'', ''compute_min'', ''compute_max'', ''seed'']) (map fst fs)"
    and "list_all (\<lambda>kv. \<not> is_dict (snd kv)) fs"
  shows "ResourceConfig (update_dict
      [(''memory_mu'', a1), (''memory_sigma'', a2), (''memory_min'', a3), (''memory_max'', a4),
       (''compute_mu'', a5), (''compute_sigma'', a6), (''compute_min'', a7), (''compute_max'', a8),
       (''seed'', a9)] fs) =
    Inr \<lparr> memory_mu = (case map_of fs ''memory_mu'' of Some v \<Rightarrow> v | None \<Rightarrow> a1),
          memory_sigma = (case map_of fs ''memory_sigma'' of Some v \<Rightarrow> v | None \<Rightarrow> a2),
          memory_min = (case map_of fs ''memory_min'' of Some v \<Rightarrow> v | None \<Rightarrow> a3),
          memory_max = (case map_of fs ''memory_max'' of Some v \<Rightarrow> v | None \<Rightarrow> a4),
          compute_mu = (case map_of fs ''compute_mu'' of Some v \<Rightarrow> v | None \<Rightarrow> a5),
          compute_sigma = (case map_of fs ''compute_sigma'' of Some v \<Rightarrow> v | None \<Rightarrow> a6),
          compute_min = (case map_of fs ''compute_min'' of Some v \<Rightarrow> v | None \<Rightarrow> a7),
          compute_max = (case map_of fs ''compute_max'' of Some v \<Rightarrow> v | None \<Rightarrow> a8),
          resource_seed = (case map_of fs ''seed'' of Some v \<Rightarrow> v | None \<Rightarrow> a9) \<rparr>"
proof -
  have ne: "\<not> unexpected [''memory_mu'', ''memory_sigma'', ''memory_min'', ''memory_max'',
            ''compute_mu'', ''compute_sigma'', ''compute_min'', ''compute_max'', ''seed''] (update_dict
      [(''memory_mu'', a1), (''memory_sigma'', a2), (''memory_min'', a3), (''memory_max'', a4),
       (''compute_mu'', a5), (''compute_sigma'', a6), (''compute_min'', a7), (''compute_max'', a8),
       (''seed'', a9)] fs)"
    by (rule flat_expected[OF assms(2)]) simp
  show ?thesis
    unfolding ResourceConfig_def
    by (simp add: ne require_def optional_def flat_lookup_Some[OF assms(1,3)])
qed

lemma WorkloadConfig_merge:
  assumes "distinct (map fst fs)"
    and "list_all (\<lambda>k. k \<in> set [''model_type'', ''initial_sequence_lengths'', ''generation_steps'',
            ''precision_bytes'', ''seed'']) (map fst fs)"
    and "list_all (\<lambda>kv. \<not> is_dict (snd kv)) fs"
  shows "WorkloadConfig mt (filter (\<lambda>kv. fst kv \<noteq> ''model_type'') (update_dict
      [(''model_type'', a1), (''initial_sequence_lengths'', a2), (''generation_steps'', a3),
       (''precision_bytes'', a4), (''seed'', a5)] fs)) =
    Inr \<lparr> model_type = mt,
          initial_sequence_lengths =
            (case map_of fs ''initial_sequence_lengths'' of Some v \<Rightarrow> v | None \<Rightarrow> a2),
          generation_steps = (case map_of fs ''generation_steps'' of Some v \<Rightarrow> v | None \<Rightarrow> a3),
          precision_bytes = (case map_of fs ''precision_bytes'' of Some v \<Rightarrow> v | None \<Rightarrow> a4),
          workload_seed = (case map_of fs ''seed'' of Some v \<Rightarrow> v | None \<Rightarrow> a5) \<rparr>"
proof -
  have ne: "\<not> unexpected [''model_type'', ''initial_sequence_lengths'', ''generation_steps'',
            ''precision_bytes'', ''seed''] (filter (\<lambda>kv. fst kv \<noteq> ''model_type'') (update_dict
      [(''model_type'', a1), (''initial_sequence_lengths'', a2), (''generation_steps'', a3),
       (''precision_bytes'', a4), (''seed'', a5)] fs))"
    by (rule not_unexpected_filter, rule flat_expected[OF assms(2)]) simp
  show ?thesis
    unfolding WorkloadConfig_def
    by (simp add: ne require_def optional_def map_of_filter_key flat_lookup_Some[OF assms(1,3)])
qed

lemma AlgorithmConfig_merge:
  assumes "distinct (map fst fs)"
    and "list_all (\<lambda>k. k \<in> set [''migration_threshold'', ''backtrack_limit'',
            ''cache_placement_strategy'', ''enable_dynamic_adjustment'']) (map fst fs)"
    and "list_all (\<lambda>kv. \<not> is_dict (snd kv)) fs"
  shows "AlgorithmConfig (update_dict
      [(''migration_threshold'', a1), (''backtrack_limit'', a2),
       (''cache_placement_strategy'', a3), (''enable_dynamic_adjustment'', a4)] fs) =
    Inr \<lparr> migration_threshold = (case map_of fs ''migration_threshold'' of Some v \<Rightarrow> v | None \<Rightarrow> a1),
          backtrack_limit = (case map_of fs ''backtrack_limit'' of Some v \<Rightarrow> v | None \<Rightarrow> a2),
          cache_placement_strategy =
            (case map_of fs ''cache_placement_strategy'' of Some v \<Rightarrow> v | None \<Rightarrow> a3),
          enable_dynamic_adjustment =
            (case map_of fs ''enable_dynamic_adjustment'' of Some v \<Rightarrow> v | None \<Rightarrow> a4) \<rparr>"
proof -
  have ne: "\<not> unexpected [''migration_threshold'', ''backtrack_limit'',
            ''cache_placement_strategy'', ''enable_dynamic_adjustment''] (update_dict
      [(''migration_threshold'', a1), (''backtrack_limit'', a2),
       (''cache_placement_strategy'', a3), (''enable_dynamic_adjustment'', a4)] fs)"
    by (rule flat_expected[OF assms(2)]) simp
  show ?thesis
    unfolding AlgorithmConfig_def
    by (simp add: ne optional_def flat_lookup_Some[OF assms(1,3)])
qed

lemma ExperimentConfig_merge:
  assumes "distinct (map fst fs)"
    and "list_all (\<lambda>k. k \<in> set [''name'', ''description'', ''num_runs'', ''checkpoint_interval'',
            ''time_limit'', ''metrics_output_dir'', ''save_intermediate'']) (map fst fs)"
    and "list_all (\<lambda>kv. \<not> is_dict (snd kv)) fs"
  shows "ExperimentConfig (update_dict
      [(''name'', a1), (''description'', a2), (''num_runs'', a3), (''checkpoint_interval'', a4),
       (''time_limit'', a5), (''metrics_output_dir'', a6), (''save_intermediate'', a7)] fs) =
    Inr \<lparr> name = (case map_of fs ''name'' of Some v \<Rightarrow> v | None \<Rightarrow> a1),
          description = (case map_of fs ''description'' of Some v \<Rightarrow> v | None \<Rightarrow> a2),
          num_runs = (case map_of fs ''num_runs'' of Some v \<Rightarrow> v | None \<Rightarrow> a3),
          checkpoint_interval = (case map_of fs ''checkpoint_interval'' of Some v \<Rightarrow> v | None \<Rightarrow> a4),
          time_limit = (case map_of fs ''time_limit'' of Some v \<Rightarrow> v | None \<Rightarrow> a5),
          metrics_output_dir = (case map_of fs ''metrics_output_dir'' of Some v \<Rightarrow> v | None \<Rightarrow> a6),
          save_intermediate = (case map_of fs ''save_intermediate'' of Some v \<Rightarrow> v | None \<Rightarrow> a7) \<rparr>"
proof -
  have ne: "\<not> unexpected [''name'', ''description'', ''num_runs'', ''checkpoint_interval'',
            ''time_limit'', ''metrics_output_dir'', ''save_intermediate''] (update_dict
      [(''name'', a1), (''description'', a2), (''num_runs'', a3), (''checkpoint_interval'', a4),
       (''time_limit'', a5), (''metrics_output_dir'', a6), (''save_intermediate'', a7)] fs)"
    by (rule flat_expected[OF assms(2)]) simp
  show ?thesis
    unfolding ExperimentConfig_def
    by (simp add: ne require_def optional_def flat_lookup_Some[OF assms(1,3)])
qed

lemma merged_section:
  assumes "distinct (map fst ov)"
    and "case map_of ov s of None \<Rightarrow> True | Some v \<Rightarrow> is_dict v"
    and "map_of d s = Some (PDict B)"
  shows "py_getitem (PDict (update_dict d ov)) s = Inr (PDict (update_dict B (section_items ov s)))"
proof (cases "map_of ov s")
  case None
  then show ?thesis
    using assms(3) by (simp add: update_dict_lookup[OF assms(1)] section_items_def)
next
  case (Some v)
  with assms(2) obtain fs where "v = PDict fs" by (cases v) auto
  with Some show ?thesis
    using assms(3) by (simp add: update_dict_lookup[OF assms(1)] section_items_def)
qed


lemma flat_sectionD:
  assumes "flat_section params ov s"
  shows "case map_of ov s of None \<Rightarrow> True | Some v \<Rightarrow> is_dict v"
    and "distinct (map fst (section_items ov s))"
    and "list_all (\<lambda>k. k \<in> set params) (map fst (section_items ov s))"
    and "list_all (\<lambda>kv. \<not> is_dict (snd kv)) (section_items ov s)"
  using assms by (simp_all add: flat_section_def)

lemma merged_model_type:
  assumes "member_name mt \<in> set reg" and "model_override_ok reg ov"
  shows "WorkloadType_getitem reg
           (case map_of (section_items ov ''workload'') ''model_type'' of
              Some v \<Rightarrow> v | None \<Rightarrow> PStr (member_name mt)) =
         Inr (case (case map_of (section_items ov ''workload'') ''model_type'' of
                      Some v \<Rightarrow> v | None \<Rightarrow> PStr (member_name mt)) of
                PStr n \<Rightarrow> WorkloadType n | _ \<Rightarrow> mt)"
proof (cases "map_of (section_items ov ''workload'') ''model_type''")
  case None
  then show ?thesis using assms(1) by simp
next
  case (Some v)
  with assms(2) obtain n where "v = PStr n" "n \<in> set reg"
    by (cases v) (auto simp: model_override_ok_def)
  with Some show ?thesis by simp
qed

lemma merge_configs_exact:
  assumes m: "member_name (model_type (workload base)) \<in> set reg"
    and wf: "wf_override reg ov"
  shows "merge_configs reg base ov = Inr (apply_overrides base ov)"
proof -
  from wf have d: "distinct (map fst ov)"
    and fn: "flat_section [''topology_type'', ''num_devices'', ''min_bandwidth'', ''max_bandwidth'',
                    ''edge_probability'', ''seed''] ov ''network''"
    and fr: "flat_section [''memory_mu'', ''memory_sigma'', ''memory_min'', ''memory_max'',
                    ''compute_mu'', ''compute_sigma'', ''compute_min'', ''compute_max'',
                    ''seed''] ov ''resources''"
    and fw: "flat_section [''model_type'', ''initial_sequence_lengths'', ''generation_steps'',
                    ''precision_bytes'', ''seed''] ov ''workload''"
    and fa: "flat_section [''migration_threshold'', ''backtrack_limit'', ''cache_placement_strategy'',
                    ''enable_dynamic_adjustment''] ov ''algorithm''"
    and fe: "flat_section [''name'', ''description'', ''num_runs'', ''checkpoint_interval'',
                    ''time_limit'', ''metrics_output_dir'', ''save_intermediate''] ov ''experiment''"
    and mo: "model_override_ok reg ov"
    by (simp_all add: wf_override_def)
  note gn = merged_section[OF d flat_sectionD(1)[OF fn], where d = "to_dict base"]
  note gr = merged_section[OF d flat_sectionD(1)[OF fr], where d = "to_dict base"]
  note gw = merged_section[OF d flat_sectionD(1)[OF fw], where d = "to_dict base"]
  note ga = merged_section[OF d flat_sectionD(1)[OF fa], where d = "to_dict base"]
  note ge = merged_section[OF d flat_sectionD(1)[OF fe], where d = "to_dict base"]
  have n: "and_then (and_then (py_getitem (PDict (update_dict (to_dict base) ov)) ''network'')
              star_star) NetworkConfig = Inr (network (apply_overrides base ov))"
    by (subst gn, simp add: to_dict_def)
       (simp add: and_then_def NetworkConfig_merge[OF flat_sectionD(2,3,4)[OF fn]]
          apply_overrides_def override_leaf_def)
  have r: "and_then (and_then (py_getitem (PDict (update_dict (to_dict base) ov)) ''resources'')
              star_star) ResourceConfig = Inr (resources (apply_overrides base ov))"
    by (subst gr, simp add: to_dict_def)
       (simp add: and_then_def ResourceConfig_merge[OF flat_sectionD(2,3,4)[OF fr]]
          apply_overrides_def override_leaf_def)
  have a: "and_then (and_then (py_getitem (PDict (update_dict (to_dict base) ov)) ''algorithm'')
              star_star) AlgorithmConfig = Inr (algorithm (apply_overrides base ov))"
    by (subst ga, simp add: to_dict_def)
       (simp add: and_then_def AlgorithmConfig_merge[OF flat_sectionD(2,3,4)[OF fa]]
          apply_overrides_def override_leaf_def)
  have e: "and_then (and_then (py_getitem (PDict (update_dict (to_dict base) ov)) ''experiment'')
              star_star) ExperimentConfig = Inr (experiment (apply_overrides base ov))"
    by (subst ge, simp add: to_dict_def)
       (simp add: and_then_def ExperimentConfig_merge[OF flat_sectionD(2,3,4)[OF fe]]
          apply_overrides_def override_leaf_def)
  have w: "and_then (py_getitem (PDict (update_dict (to_dict base) ov)) ''workload'') (\<lambda>wd.
         and_then (py_getitem wd ''model_type'') (\<lambda>mn.
         and_then (WorkloadType_getitem reg mn) (\<lambda>mt.
         and_then (py_items wd) (\<lambda>its.
         WorkloadConfig mt (filter (\<lambda>kv. fst kv \<noteq> ''model_type'') its)))))
       = Inr (workload (apply_overrides base ov))"
    by (subst gw, simp add: to_dict_def)
       (simp add: and_then_def flat_lookup_Some[OF flat_sectionD(2,4)[OF fw]]
          merged_model_type[OF m mo] WorkloadConfig_merge[OF flat_sectionD(2,3,4)[OF fw]]
          apply_overrides_def override_leaf_def)
  show ?thesis
    unfolding merge_configs_def from_dict_sections n r w a e
    by (simp add: and_then_def)
qed

section \<open>Properties of equality and of the round trip through a file\<close>
















text \<open>
  C8. The default configuration has \<open>num_devices = 8\<close>, \<open>min_bandwidth = 1.0\<close> and
  \<open>max_bandwidth = 10.0\<close>, and \<open>validate_config\<close> returns \<open>True\<close> on it. The copy with
  \<open>max_bandwidth = 0.5\<close>, which is below \<open>min_bandwidth\<close>, makes it return \<open>False\<close>.
\<close>

theorem default_config_valid:
  "num_devices (network create_default_config) = PInt 8 \<and>
   min_bandwidth (network create_default_config) = PFloat (Fin 1) \<and>
   max_bandwidth (network create_default_config) = PFloat (Fin 10) \<and>
   validate_config create_default_config = Inr True \<and>
   validate_config
     (create_default_config
        \<lparr> network := (network create_default_config)\<lparr> max_bandwidth := PFloat (Fin (1/2)) \<rparr> \<rparr>)
     = Inr False"
  by (simp add: validate_config_def validate_body_def validate_conditions_def
        create_default_config_def py_le_int_def py_int_le_def py_not_between_def
        any_le_zero_def float_0_3_def float_0_9_def)

text \<open>
  C7. \<open>validate_config\<close> never raises: on every configuration it returns a boolean,
  and when the evaluation of a condition raises (a comparison on a value that is not
  a number, an iteration over a value that is not iterable) the result is \<open>False\<close>.
  Being a function of the configuration alone, it is deterministic and has no effect.
\<close>

theorem validate_config_never_raises:
  "(\<exists>b. validate_config c = Inr b) \<and>
   (validate_body c = Inl e \<longrightarrow> validate_config c = Inr False)"
  by (cases "validate_body c") (auto simp add: validate_config_def)

theorem validate_config_never_raises_witness:
  "validate_body
     (create_default_config
        \<lparr> network := (network create_default_config)\<lparr> num_devices := PStr ''eight'' \<rparr> \<rparr>)
     = Inl TypeError \<and>
   validate_config
     (create_default_config
        \<lparr> network := (network create_default_config)\<lparr> num_devices := PStr ''eight'' \<rparr> \<rparr>)
     = Inr False"
  using validate_config_never_raises
    [where c = "create_default_config
           \<lparr> network := (network create_default_config)\<lparr> num_devices := PStr ''eight'' \<rparr> \<rparr>"
       and e = TypeError]
  by (simp add: validate_body_def validate_conditions_def create_default_config_def
        py_le_int_def)

text \<open>
  C10. \<open>validate_config\<close> reads no string field: changing \<open>topology_type\<close>,
  \<open>cache_placement_strategy\<close>, the experiment's \<open>name\<close>, \<open>description\<close> and
  \<open>metrics_output_dir\<close>, and the \<open>mu\<close> and \<open>sigma\<close> parameters of both resource
  distributions never changes its result, and on a configuration that satisfies the
  numeric and sequence invariants the result is \<open>True\<close> whatever these fields hold.
\<close>

theorem validate_config_ignores_unchecked:
  "validate_config
     (c\<lparr> network := (network c)\<lparr> topology_type := tt \<rparr>,
         resources := (resources c)\<lparr> memory_mu := mm, memory_sigma := ms,
                                       compute_mu := cm, compute_sigma := cs \<rparr>,
         algorithm := (algorithm c)\<lparr> cache_placement_strategy := cp \<rparr>,
         experiment := (experiment c)\<lparr> name := nm, description := ds,
                                         metrics_output_dir := md \<rparr> \<rparr>)
     = validate_config c \<and>
   (spec_invariants c \<longrightarrow>
    validate_config
      (c\<lparr> network := (network c)\<lparr> topology_type := tt \<rparr>,
          resources := (resources c)\<lparr> memory_mu := mm, memory_sigma := ms,
                                        compute_mu := cm, compute_sigma := cs \<rparr>,
          algorithm := (algorithm c)\<lparr> cache_placement_strategy := cp \<rparr>,
          experiment := (experiment c)\<lparr> name := nm, description := ds,
                                          metrics_output_dir := md \<rparr> \<rparr>)
      = Inr True)"
proof -
  have same: "validate_config
     (c\<lparr> network := (network c)\<lparr> topology_type := tt \<rparr>,
         resources := (resources c)\<lparr> memory_mu := mm, memory_sigma := ms,
                                       compute_mu := cm, compute_sigma := cs \<rparr>,
         algorithm := (algorithm c)\<lparr> cache_placement_strategy := cp \<rparr>,
         experiment := (experiment c)\<lparr> name := nm, description := ds,
                                         metrics_output_dir := md \<rparr> \<rparr>)
     = validate_config c"
    by (simp only: validate_config_def validate_body_def validate_conditions_unchecked)
  have "spec_invariants c \<Longrightarrow> validate_config c = Inr True"
    by (simp add: validate_config_accepted spec_invariants_accepted)
  with same show ?thesis by simp
qed

theorem validate_config_ignores_unchecked_witness:
  "spec_invariants create_default_config \<and>
   validate_config
     (create_default_config
        \<lparr> network := (network create_default_config)\<lparr> topology_type := PStr ''ring_of_fire'' \<rparr>,
          resources := (resources create_default_config)
            \<lparr> memory_mu := PStr ''two'', memory_sigma := PNone,
              compute_mu := PFloat NaN, compute_sigma := PFloat NegInf \<rparr>,
          algorithm := (algorithm create_default_config)\<lparr> cache_placement_strategy := PInt 7 \<rparr>,
          experiment := (experiment create_default_config)
            \<lparr> name := PStr [], description := PNone, metrics_output_dir := PList [] \<rparr> \<rparr>)
     = Inr True"
proof -
  have inv: "spec_invariants create_default_config"
    by (simp add: spec_invariants_def create_default_config_def range_ok_def positive_def
          in_unit_interval_def float_0_3_def float_0_9_def)
  from inv validate_config_ignores_unchecked
    [where c = create_default_config and tt = "PStr ''ring_of_fire''" and mm = "PStr ''two''"
       and ms = PNone and cm = "PFloat NaN" and cs = "PFloat NegInf" and cp = "PInt 7"
       and nm = "PStr []" and ds = PNone and md = "PList []"]
  show ?thesis by blast
qed

text \<open>
  C2. \<open>validate_config\<close> is meant to return \<open>False\<close> exactly when an invariant is
  violated. Lemma \<open>validate_config_invariants\<close> shows that it does on every
  configuration without a \<open>NaN\<close>, and \<open>run_checks_first_failure\<close> that the first
  condition that is not false decides. A \<open>NaN\<close> in a positive quantity escapes: the
  code tests \<^verbatim>\<open>x <= 0\<close> and \<^verbatim>\<open>min > max\<close>, both false on \<open>NaN\<close>, so the default
  configuration with \<open>min_bandwidth = NaN\<close> is accepted although \<open>min_bandwidth > 0\<close>
  and \<open>min_bandwidth \<le> max_bandwidth\<close> do not hold.
\<close>

theorem validate_config_accepts_nan:
  "validate_config
     (create_default_config
        \<lparr> network := (network create_default_config)\<lparr> min_bandwidth := PFloat NaN \<rparr> \<rparr>)
     = Inr True \<and>
   \<not> spec_invariants
     (create_default_config
        \<lparr> network := (network create_default_config)\<lparr> min_bandwidth := PFloat NaN \<rparr> \<rparr>)"
  by (simp add: validate_config_def validate_body_def validate_conditions_def
        create_default_config_def py_le_int_def py_int_le_def py_not_between_def
        any_le_zero_def float_0_3_def float_0_9_def spec_invariants_def range_ok_def)

section \<open>Claims about the codec and the merge\<close>




text \<open>
  C3. Merge changes the leaf values the override tree supplies and nothing else. For
  every base configuration whose workload model is a registry member: for every
  well-formed override the result is \<open>apply_overrides base ov\<close>, the base with exactly
  the supplied leaves replaced; with the empty override the result is the base; with
  the override \<^verbatim>\<open>{"network": {"num_devices": 4}}\<close> every field but \<open>num_devices\<close> is
  the base's, the other network fields included; and an override that supplies a new
  \<open>initial_sequence_lengths\<close> list puts that list in place of the base's list.
\<close>

theorem merge_configs_frame:
  assumes "member_name (model_type (workload base)) \<in> set reg"
  shows "(wf_override reg ov \<longrightarrow> merge_configs reg base ov = Inr (apply_overrides base ov)) \<and>
    merge_configs reg base [] = Inr base \<and>
    merge_configs reg base [(''network'', PDict [(''num_devices'', PInt 4)])]
      = Inr (base\<lparr> network := (network base)\<lparr> num_devices := PInt 4 \<rparr> \<rparr>) \<and>
    merge_configs reg base [(''workload'', PDict [(''initial_sequence_lengths'', PList xs)])]
      = Inr (base\<lparr> workload := (workload base)\<lparr> initial_sequence_lengths := PList xs \<rparr> \<rparr>)"
proof -
  have "merge_configs reg base [] = Inr base"
    and "merge_configs reg base [(''network'', PDict [(''num_devices'', PInt 4)])]
      = Inr (base\<lparr> network := (network base)\<lparr> num_devices := PInt 4 \<rparr> \<rparr>)"
    and "merge_configs reg base [(''workload'', PDict [(''initial_sequence_lengths'', PList xs)])]
      = Inr (base\<lparr> workload := (workload base)\<lparr> initial_sequence_lengths := PList xs \<rparr> \<rparr>)"
    using assms by (simp_all add: merge_configs_def codec_defs)
  with merge_configs_exact[OF assms] show ?thesis by blast
qed

theorem merge_configs_frame_witness:
  "merge_configs [''SMALL''] create_default_config
     [(''workload'', PDict [(''precision_bytes'', PInt 8),
                            (''initial_sequence_lengths'', PList [PInt 1024])]),
      (''network'', PDict [(''num_devices'', PInt 4)])]
     = Inr (create_default_config
              \<lparr> network := (network create_default_config)\<lparr> num_devices := PInt 4 \<rparr>,
                workload := (workload create_default_config)
                   \<lparr> initial_sequence_lengths := PList [PInt 1024],
                     precision_bytes := PInt 8 \<rparr> \<rparr>) \<and>
   merge_configs [''SMALL''] create_default_config [] = Inr create_default_config"
proof -
  let ?ov = "[(''workload'', PDict [(''precision_bytes'', PInt 8),
                            (''initial_sequence_lengths'', PList [PInt 1024])]),
      (''network'', PDict [(''num_devices'', PInt 4)])]"
  have m: "member_name (model_type (workload create_default_config)) \<in> set [''SMALL'']"
    by (simp add: create_default_config_def)
  have wf: "wf_override [''SMALL''] ?ov"
    by (simp add: wf_override_def flat_section_def section_items_def model_override_ok_def)
  have r: "apply_overrides create_default_config ?ov =
      create_default_config
              \<lparr> network := (network create_default_config)\<lparr> num_devices := PInt 4 \<rparr>,
                workload := (workload create_default_config)
                   \<lparr> initial_sequence_lengths := PList [PInt 1024],
                     precision_bytes := PInt 8 \<rparr> \<rparr>"
    by (simp add: apply_overrides_def override_leaf_def section_items_def create_default_config_def)
  from merge_configs_frame[OF m, where ov = ?ov] wf r show ?thesis by simp
qed

section \<open>Claims about loading and saving\<close>

text \<open>
  C5, as stated, fails: the suffix \<^verbatim>\<open>.yml\<close> is not accepted. Saving to
  \<^verbatim>\<open>config.yml\<close> and loading an existing \<^verbatim>\<open>config.yml\<close> both raise the
  \<^verbatim>\<open>ValueError\<close> of an unsupported suffix.
\<close>

theorem yml_rejected:
  "fst (save_config document_serializers empty_fs create_default_config [''config.yml''])
     = Inl unsupported \<and>
   fst (load_config document_serializers [''SMALL'']
          (empty_fs\<lparr> files := [[''config.yml''] \<mapsto> [PDict (to_dict create_default_config)]] \<rparr>)
          [''config.yml''])
     = Inl unsupported"
  by (simp add: save_config_def load_config_def Let_def path_suffix_def suffix_def empty_fs_def
        is_file_def is_dir_def path_exists_def open_read_def ancestors_def)

text \<open>
  C5, amended. The accepted suffixes are exactly \<^verbatim>\<open>.yaml\<close> and \<^verbatim>\<open>.json\<close>. Loading
  an existing regular file parses it as YAML under \<^verbatim>\<open>.yaml\<close>, as JSON under
  \<^verbatim>\<open>.json\<close>, and raises the \<^verbatim>\<open>ValueError\<close> of an unsupported suffix under every
  other suffix. Saving, where the parent directories can be made and the path is not
  a directory, succeeds under \<^verbatim>\<open>.yaml\<close> and \<^verbatim>\<open>.json\<close> and raises that
  \<^verbatim>\<open>ValueError\<close> under every other suffix; it succeeds under no other suffix.
\<close>

theorem load_save_suffixes:
  "(files fs p = Some f \<and> \<not> is_dir fs p \<longrightarrow>
      fst (load_config S reg fs p) =
        (if path_suffix p = ''.yaml'' then and_then (yaml_safe_load S f) (from_dict reg)
         else if path_suffix p = ''.json'' then and_then (json_load S f) (from_dict reg)
         else Inl unsupported)) \<and>
   (\<not> list_ex (is_file fs) (ancestors p) \<and> \<not> is_dir fs p \<longrightarrow>
      fst (save_config S fs c p) =
        (if path_suffix p = ''.yaml'' \<or> path_suffix p = ''.json'' then Inr ()
         else Inl unsupported)) \<and>
   (fst (save_config S fs c p) = Inr () \<longrightarrow>
      path_suffix p = ''.yaml'' \<or> path_suffix p = ''.json'')"
  using save_config_Inr[of S fs c p]
  by (auto simp add: load_config_file save_config_ok)

theorem load_save_suffixes_witness:
  "fst (load_config document_serializers [''SMALL'']
          (empty_fs\<lparr> files := [[''run.yaml''] \<mapsto> [PDict (to_dict create_default_config)]] \<rparr>)
          [''run.yaml''])
     = Inr create_default_config \<and>
   fst (save_config document_serializers empty_fs create_default_config [''out'', ''run.json''])
     = Inr () \<and>
   fst (save_config document_serializers empty_fs create_default_config [''out'', ''run.yml''])
     = Inl unsupported"
proof -
  have s: "path_suffix [''run.yaml''] = ''.yaml''" "path_suffix [''out'', ''run.json''] = ''.json''"
    "path_suffix [''out'', ''run.yml''] = ''.yml''"
    by (simp_all add: path_suffix_def suffix_def)
  have h: "\<not> list_ex (is_file (empty_fs :: pyval list filesystem)) (ancestors q)"
    "\<not> is_dir (empty_fs :: pyval list filesystem) [''out'', ''run.json'']"
    "\<not> is_dir (empty_fs :: pyval list filesystem) [''out'', ''run.yml'']" for q
    by (simp_all add: empty_fs_def is_file_def is_dir_def list_ex_iff)
  have f: "files (empty_fs\<lparr> files := [[''run.yaml''] \<mapsto> [PDict (to_dict create_default_config)]] \<rparr>)
             [''run.yaml''] = Some [PDict (to_dict create_default_config)]"
    "\<not> is_dir (empty_fs\<lparr> files := [[''run.yaml''] \<mapsto> [PDict (to_dict create_default_config)]] \<rparr>)
             [''run.yaml'']"
    by (simp_all add: empty_fs_def is_dir_def)
  have d: "and_then (yaml_safe_load document_serializers [PDict (to_dict create_default_config)])
             (from_dict [''SMALL'']) = Inr create_default_config"
    by (simp add: document_serializers_def and_then_def from_dict_to_dict create_default_config_def)
  from load_save_suffixes[where S = document_serializers and reg = "[''SMALL'']"
      and fs = "empty_fs\<lparr> files := [[''run.yaml''] \<mapsto> [PDict (to_dict create_default_config)]] \<rparr>"
      and p = "[''run.yaml'']" and f = "[PDict (to_dict create_default_config)]"]
    load_save_suffixes[where S = document_serializers and fs = empty_fs
      and p = "[''out'', ''run.json'']" and c = create_default_config]
    load_save_suffixes[where S = document_serializers and fs = empty_fs
      and p = "[''out'', ''run.yml'']" and c = create_default_config]
    s h f d
  show ?thesis by simp
qed

text \<open>
  C6, as stated, fails: the existence of the path is checked before its suffix, so
  loading a \<^verbatim>\<open>.txt\<close> path that does not exist raises \<^verbatim>\<open>FileNotFoundError\<close>, not
  the error of an unsupported suffix.
\<close>

theorem load_missing_txt:
  "fst (load_config document_serializers [''SMALL''] empty_fs [''missing.txt''])
     = Inl FileNotFoundError \<and>
   fst (load_config document_serializers [''SMALL''] empty_fs [''missing.txt''])
     \<noteq> Inl unsupported"
  by (simp add: load_config_def path_exists_def is_file_def is_dir_def empty_fs_def unsupported_def)

text \<open>
  C6, amended. For every path whose final component ends in \<^verbatim>\<open>.txt\<close>, loading
  leaves the file system as it was and fails: with \<^verbatim>\<open>FileNotFoundError\<close> when the
  path does not exist, with an operating system error when it is a directory, and
  with the \<^verbatim>\<open>ValueError\<close> of an unsupported suffix when it is a regular file.
\<close>

theorem load_txt:
  assumes "p \<noteq> []" and "last p = stem @ ''.txt''"
  shows "snd (load_config S reg fs p) = fs \<and>
    (\<not> path_exists fs p \<longrightarrow> fst (load_config S reg fs p) = Inl FileNotFoundError) \<and>
    (is_dir fs p \<longrightarrow> fst (load_config S reg fs p) = Inl OSError) \<and>
    (files fs p = Some f \<and> \<not> is_dir fs p \<longrightarrow> fst (load_config S reg fs p) = Inl unsupported)"
proof -
  note sfx = path_suffix_txt[OF assms]
  have "is_dir fs p \<Longrightarrow> fst (load_config S reg fs p) = Inl OSError"
    by (simp add: load_config_def path_exists_def open_read_def)
  moreover have "files fs p = Some f \<Longrightarrow> \<not> is_dir fs p \<Longrightarrow>
      fst (load_config S reg fs p) = Inl unsupported"
    by (simp add: load_config_file sfx)
  ultimately show ?thesis
    by (simp add: load_config_unchanged load_config_missing)
qed

theorem load_txt_witness:
  "fst (load_config document_serializers [''SMALL'']
          (empty_fs\<lparr> files := [[''notes'', ''config.txt''] \<mapsto> [PStr ''hello'']] \<rparr>)
          [''notes'', ''config.txt''])
     = Inl unsupported \<and>
   snd (load_config document_serializers [''SMALL'']
          (empty_fs\<lparr> files := [[''notes'', ''config.txt''] \<mapsto> [PStr ''hello'']] \<rparr>)
          [''notes'', ''config.txt''])
     = empty_fs\<lparr> files := [[''notes'', ''config.txt''] \<mapsto> [PStr ''hello'']] \<rparr>"
proof -
  have a: "[''notes'', ''config.txt''] \<noteq> []" "last [''notes'', ''config.txt''] = ''config'' @ ''.txt''"
    by simp_all
  have f: "files (empty_fs\<lparr> files := [[''notes'', ''config.txt''] \<mapsto> [PStr ''hello'']] \<rparr>)
             [''notes'', ''config.txt''] = Some [PStr ''hello'']"
    "\<not> is_dir (empty_fs\<lparr> files := [[''notes'', ''config.txt''] \<mapsto> [PStr ''hello'']] \<rparr>)
             [''notes'', ''config.txt'']"
    by (simp_all add: empty_fs_def is_dir_def)
  from load_txt[OF a, where S = document_serializers and reg = "[''SMALL'']"
      and fs = "empty_fs\<lparr> files := [[''notes'', ''config.txt''] \<mapsto> [PStr ''hello'']] \<rparr>"
      and f = "[PStr ''hello'']"] f
  show ?thesis by blast
qed

text \<open>
  C9. A save that fails on the suffix is not atomic. For every configuration and
  every path whose suffix is neither \<^verbatim>\<open>.yaml\<close> nor \<^verbatim>\<open>.json\<close>: where the parent
  directories can be made and the path is not a directory, the save raises the
  \<^verbatim>\<open>ValueError\<close> and leaves the missing parent directories created and an empty file
  at the path; and whenever the save raises that \<^verbatim>\<open>ValueError\<close>, the file at the
  path is empty and the parent directories exist.
\<close>

theorem save_unsupported_not_atomic:
  assumes "path_suffix p \<noteq> ''.yaml''" and "path_suffix p \<noteq> ''.json''"
  shows "(\<not> list_ex (is_file fs) (ancestors p) \<and> \<not> is_dir fs p \<longrightarrow>
       save_config S fs c p =
         (Inl unsupported,
          fs\<lparr> dirs := dirs fs \<union> set (ancestors p),
              files := (files fs)(p \<mapsto> empty_text S) \<rparr>)) \<and>
    (fst (save_config S fs c p) = Inl unsupported \<longrightarrow>
       files (snd (save_config S fs c p)) p = Some (empty_text S) \<and>
       set (ancestors p) \<subseteq> dirs (snd (save_config S fs c p)))"
proof -
  have "\<not> list_ex (is_file fs) (ancestors p) \<Longrightarrow> \<not> is_dir fs p \<Longrightarrow>
       save_config S fs c p =
         (Inl unsupported,
          fs\<lparr> dirs := dirs fs \<union> set (ancestors p),
              files := (files fs)(p \<mapsto> empty_text S) \<rparr>)"
    using assms by (simp add: save_config_ok)
  moreover have "fst (save_config S fs c p) = Inl unsupported \<Longrightarrow>
       files (snd (save_config S fs c p)) p = Some (empty_text S) \<and>
       set (ancestors p) \<subseteq> dirs (snd (save_config S fs c p))"
    using assms
    by (simp add: save_config_def Let_def is_dir_after_mkdir unsupported_def split: if_splits)
  ultimately show ?thesis by blast
qed

theorem save_unsupported_not_atomic_witness:
  "save_config document_serializers empty_fs create_default_config [''out'', ''run1'', ''config.txt'']
     = (Inl unsupported,
        \<lparr> files = [[''out'', ''run1'', ''config.txt''] \<mapsto> []],
          dirs = {[''out''], [''out'', ''run1'']} \<rparr>) \<and>
   snd (save_config document_serializers empty_fs create_default_config
          [''out'', ''run1'', ''config.txt''])
     \<noteq> empty_fs"
proof -
  have s: "path_suffix [''out'', ''run1'', ''config.txt''] \<noteq> ''.yaml''"
    "path_suffix [''out'', ''run1'', ''config.txt''] \<noteq> ''.json''"
    by (simp_all add: path_suffix_def suffix_def)
  have h: "\<not> list_ex (is_file (empty_fs :: pyval list filesystem))
               (ancestors [''out'', ''run1'', ''config.txt''])"
    "\<not> is_dir (empty_fs :: pyval list filesystem) [''out'', ''run1'', ''config.txt'']"
    by (simp_all add: empty_fs_def is_file_def is_dir_def list_ex_iff)
  have a: "set (ancestors [''out'', ''run1'', ''config.txt'']) = {[''out''], [''out'', ''run1'']}"
    by (simp add: ancestors_def upt_rec)
  from save_unsupported_not_atomic[OF s, where S = document_serializers and fs = empty_fs
      and c = create_default_config] h
  have "save_config document_serializers empty_fs create_default_config
          [''out'', ''run1'', ''config.txt'']
        = (Inl unsupported,
           \<lparr> files = [[''out'', ''run1'', ''config.txt''] \<mapsto> []],
             dirs = {[''out''], [''out'', ''run1'']} \<rparr>)"
    by (simp add: a empty_fs_def document_serializers_def)
  then show ?thesis
    by (simp add: empty_fs_def)
qed

section \<open>Claims about decoding\<close>

text \<open>
  C4, as stated, fails. A mistyped field is no failure: the tree of the default
  configuration with \<open>num_devices\<close> the string \<^verbatim>\<open>"eight"\<close> decodes. Nor are the
  errors distinguishable as the claim has it: a workload section without
  \<open>model_type\<close> and one whose \<open>model_type\<close> is the unknown name \<^verbatim>\<open>"model_type"\<close>
  raise the same \<^verbatim>\<open>KeyError\<close>, and an extra field and a missing required field
  raise the same \<^verbatim>\<open>TypeError\<close>.
\<close>

theorem from_dict_accepts_mistyped:
  "from_dict [''SMALL'']
     (PDict (to_dict (create_default_config
        \<lparr> network := (network create_default_config)\<lparr> num_devices := PStr ''eight'' \<rparr> \<rparr>)))
     = Inr (create_default_config
        \<lparr> network := (network create_default_config)\<lparr> num_devices := PStr ''eight'' \<rparr> \<rparr>) \<and>
   from_dict [''SMALL'']
     (PDict (AList.update ''workload''
        (PDict [(''initial_sequence_lengths'', PList [PInt 128]),
                (''generation_steps'', PList [PInt 32])])
        (to_dict create_default_config)))
     = Inl (KeyError (PStr ''model_type'')) \<and>
   from_dict [''SMALL'']
     (PDict (AList.update ''workload''
        (PDict [(''model_type'', PStr ''model_type''),
                (''initial_sequence_lengths'', PList [PInt 128]),
                (''generation_steps'', PList [PInt 32])])
        (to_dict create_default_config)))
     = Inl (KeyError (PStr ''model_type'')) \<and>
   from_dict [''SMALL'']
     (PDict (AList.update ''algorithm'' (PDict [(''colour'', PStr ''red'')])
        (to_dict create_default_config)))
     = Inl TypeError \<and>
   from_dict [''SMALL'']
     (PDict (AList.update ''experiment'' (PDict [(''name'', PStr ''run'')])
        (to_dict create_default_config)))
     = Inl TypeError"
  by (simp add: codec_defs create_default_config_def)

text \<open>
  C4, amended. Decoding fails on structural problems only; it checks no field's type
  and validates nothing. It succeeds exactly on the structurally complete trees: each
  of the five sections a mapping that gives every field without a default and no key
  that is not a field, the workload's \<open>model_type\<close> the name of a registry member.
  So every tree with a section's sub-mapping that lacks a required field fails, and
  every tree with a section's sub-mapping that holds a key that is not a field
  fails, while a structurally complete tree decodes whatever its fields hold. Every
  failure is a \<^verbatim>\<open>KeyError\<close> or a \<^verbatim>\<open>TypeError\<close>. When the network and resources
  sections are well shaped and the workload's \<open>model_type\<close> is a string that is not a
  registered name, the failure is the \<^verbatim>\<open>KeyError\<close> of that name.
\<close>

theorem from_dict_structural:
  "(\<exists>c. from_dict reg t = Inr c) = structurally_complete reg t \<and>
   (from_dict reg t = Inl e \<longrightarrow> structural_error e) \<and>
   (network_shape t \<and> resources_shape t \<and> py_getitem t ''workload'' = Inr wd \<and>
    py_getitem wd ''model_type'' = Inr (PStr n) \<and> n \<notin> set reg
      \<longrightarrow> from_dict reg t = Inl (KeyError (PStr n))) \<and>
   (py_getitem t s = Inr (PDict kw) \<and> f \<in> set (required_of s) \<and> map_of kw f = None
      \<longrightarrow> (\<exists>e'. from_dict reg t = Inl e' \<and> structural_error e')) \<and>
   (py_getitem t s = Inr (PDict kw) \<and> s \<in> set section_names \<and> map_of kw k \<noteq> None \<and>
    k \<notin> set (fields_of s)
      \<longrightarrow> (\<exists>e'. from_dict reg t = Inl e' \<and> structural_error e'))"
proof (intro conjI impI)
  show "(\<exists>c. from_dict reg t = Inr c) = structurally_complete reg t"
    by (rule from_dict_Inr)
  show "structural_error e" if "from_dict reg t = Inl e"
    using that by (rule from_dict_Inl)
  show "from_dict reg t = Inl (KeyError (PStr n))"
    if "network_shape t \<and> resources_shape t \<and> py_getitem t ''workload'' = Inr wd \<and>
        py_getitem wd ''model_type'' = Inr (PStr n) \<and> n \<notin> set reg"
    using that by (intro from_dict_unknown_member[where wd = wd]) simp_all
  show "\<exists>e'. from_dict reg t = Inl e' \<and> structural_error e'"
    if h: "py_getitem t s = Inr (PDict kw) \<and> f \<in> set (required_of s) \<and> map_of kw f = None"
  proof -
    from h have "\<not> structurally_complete reg t"
      by (intro missing_required_incomplete[where s = s and kw = kw and f = f]) simp_all
    then show ?thesis by (rule incomplete_fails)
  qed
  show "\<exists>e'. from_dict reg t = Inl e' \<and> structural_error e'"
    if h: "py_getitem t s = Inr (PDict kw) \<and> s \<in> set section_names \<and> map_of kw k \<noteq> None \<and>
        k \<notin> set (fields_of s)"
  proof -
    from h have "\<not> structurally_complete reg t"
      by (intro extra_field_incomplete[where s = s and kw = kw and k = k]) simp_all
    then show ?thesis by (rule incomplete_fails)
  qed
qed

theorem from_dict_structural_witness:
  "from_dict [''SMALL'']
     (PDict (AList.update ''workload''
        (PDict [(''model_type'', PStr ''NONEXISTENT''),
                (''initial_sequence_lengths'', PList [PInt 128]),
                (''generation_steps'', PList [PInt 32])])
        (to_dict create_default_config)))
     = Inl (KeyError (PStr ''NONEXISTENT'')) \<and>
   structural_error (KeyError (PStr ''NONEXISTENT'')) \<and>
   (\<exists>e. from_dict [''SMALL'']
      (PDict (AList.update ''experiment'' (PDict [(''name'', PStr ''run'')])
         (to_dict create_default_config))) = Inl e \<and> structural_error e) \<and>
   (\<exists>e. from_dict [''SMALL'']
      (PDict (AList.update ''algorithm'' (PDict [(''colour'', PStr ''red'')])
         (to_dict create_default_config))) = Inl e \<and> structural_error e) \<and>
   from_dict [''SMALL'']
     (PDict (to_dict (create_default_config
        \<lparr> network := (network create_default_config)\<lparr> num_devices := PInt (- 3) \<rparr> \<rparr>)))
     = Inr (create_default_config
        \<lparr> network := (network create_default_config)\<lparr> num_devices := PInt (- 3) \<rparr> \<rparr>)"
proof -
  let ?wd = "PDict [(''model_type'', PStr ''NONEXISTENT''),
                (''initial_sequence_lengths'', PList [PInt 128]),
                (''generation_steps'', PList [PInt 32])]"
  let ?t = "PDict (AList.update ''workload'' ?wd (to_dict create_default_config))"
  let ?t1 = "PDict (AList.update ''experiment'' (PDict [(''name'', PStr ''run'')])
         (to_dict create_default_config))"
  let ?t2 = "PDict (AList.update ''algorithm'' (PDict [(''colour'', PStr ''red'')])
         (to_dict create_default_config))"
  let ?c = "create_default_config
        \<lparr> network := (network create_default_config)\<lparr> num_devices := PInt (- 3) \<rparr> \<rparr>"
  have h: "network_shape ?t" "resources_shape ?t" "py_getitem ?t ''workload'' = Inr ?wd"
    "py_getitem ?wd ''model_type'' = Inr (PStr ''NONEXISTENT'')" "''NONEXISTENT'' \<notin> set [''SMALL'']"
    by (simp_all add: network_shape_def resources_shape_def section_shape_def to_dict_def)
  have k: "from_dict [''SMALL''] ?t = Inl (KeyError (PStr ''NONEXISTENT''))"
    using from_dict_structural[where reg = "[''SMALL'']" and t = ?t and wd = ?wd
        and n = "''NONEXISTENT''"] h
    by blast
  have s: "structural_error (KeyError (PStr ''NONEXISTENT''))"
    using from_dict_structural[where reg = "[''SMALL'']" and t = ?t
        and e = "KeyError (PStr ''NONEXISTENT'')"] k
    by blast
  have h1: "py_getitem ?t1 ''experiment'' = Inr (PDict [(''name'', PStr ''run'')])"
    "''description'' \<in> set (required_of ''experiment'')"
    "map_of [(''name'', PStr ''run'')] ''description'' = None"
    by (simp_all add: to_dict_def required_of_def)
  have m: "\<exists>e. from_dict [''SMALL''] ?t1 = Inl e \<and> structural_error e"
    using from_dict_structural[where reg = "[''SMALL'']" and t = ?t1 and s = "''experiment''"
        and kw = "[(''name'', PStr ''run'')]" and f = "''description''"] h1
    by blast
  have h2: "py_getitem ?t2 ''algorithm'' = Inr (PDict [(''colour'', PStr ''red'')])"
    "''algorithm'' \<in> set section_names"
    "map_of [(''colour'', PStr ''red'')] ''colour'' \<noteq> None"
    "''colour'' \<notin> set (fields_of ''algorithm'')"
    by (simp_all add: to_dict_def fields_of_def section_names_def)
  have x: "\<exists>e. from_dict [''SMALL''] ?t2 = Inl e \<and> structural_error e"
    using from_dict_structural[where reg = "[''SMALL'']" and t = ?t2 and s = "''algorithm''"
        and kw = "[(''colour'', PStr ''red'')]" and k = "''colour''"] h2
    by blast
  have c: "structurally_complete [''SMALL''] (PDict (to_dict ?c))"
    by (simp add: structurally_complete_def network_shape_def resources_shape_def
          workload_shape_def algorithm_shape_def experiment_shape_def section_shape_def
          registered_def to_dict_def create_default_config_def)
  have "\<exists>c'. from_dict [''SMALL''] (PDict (to_dict ?c)) = Inr c'"
    using from_dict_structural[where reg = "[''SMALL'']" and t = "PDict (to_dict ?c)"] c
    by blast
  moreover have "from_dict [''SMALL''] (PDict (to_dict ?c)) = Inr c' \<Longrightarrow> c' = ?c" for c'
    by (simp add: from_dict_to_dict create_default_config_def)
  ultimately have d: "from_dict [''SMALL''] (PDict (to_dict ?c)) = Inr ?c" by blast
  from k s m x d show ?thesis by blast
qed

end
